theory Spec2Isabelle
  imports Complex_Main "HOL-Library.Sublist" "HOL-Library.AList" "HOL-Library.Log_Nat"
begin

section \<open>Data model of \<open>linkedin_workflow_automation.py\<close>\<close>

text \<open>
  The embedding follows the module class by class. Conventions:
  \<^item> a dataclass is a \<^theory_text>\<open>record\<close>, an \<open>Enum\<close> a \<^theory_text>\<open>datatype\<close>;
    field names are the source's, prefixed where two classes share one
    (\<open>id\<close>, \<open>description\<close>, \<open>value\<close>, \<open>notes\<close>);
  \<^item> a Python \<open>dict\<close> is an association list in insertion order with distinct keys:
    \<open>d[k] = v\<close> is \<open>AList.update k v d\<close> (in place for a known key, appended for a new
    one), \<open>del d[k]\<close> is \<open>AList.delete k d\<close>, \<open>d.values()\<close> is \<open>map snd d\<close>,
    \<open>k in d\<close> is \<open>map_of d k \<noteq> None\<close>;
  \<^item> \<open>int\<close> is \<open>int\<close>; a finite \<open>float\<close> is the real number it denotes, and every
    float operation rounds its exact result to the nearest double (section on floats
    below); \<open>inf\<close> and \<open>nan\<close> are not values of the model;
  \<^item> \<open>str\<close> is \<open>string\<close>, a \<open>char\<close> being the code point of that number, so the
    strings of the model are those over the code points below 256 (Latin-1);
  \<^item> what the module reads from outside is a parameter: \<open>uuid7str()\<close> results,
    \<open>datetime.now()\<close> readings, and the step executor with its own state;
  \<^item> an exception is \<open>Inl\<close> of a \<open>py_error\<close>; a function that mutates \<open>self\<close> returns
    the new object next to its result, also when it raises. \<open>FloatNotFinite\<close> is not
    an exception of Python: it marks the one place where the program would go on with
    \<open>inf\<close> or \<open>nan\<close> in \<open>success_rate\<close>, which the model cannot hold, and the model
    ends the call there;
  \<^item> the two JSON files are fields of the objects that write them; file system failures,
    logging and the duration of \<open>asyncio.sleep\<close> are not modelled.
\<close>

datatype py_error =
  AttributeError | ValueError | ZeroDivisionError | OverflowError | FloatNotFinite

datatype ApplicationStatus =
  PENDING | IN_PROGRESS | SUBMITTED | REJECTED | INTERVIEW | OFFER | WITHDRAWN

datatype WorkflowStepType =
  CLICK | FILL_FORM | SELECT_OPTION | UPLOAD_FILE | WAIT | VERIFY | SCREENING_QUESTION

record pydate =
  year :: nat
  month :: nat
  day :: nat

record datetime =
  date_part :: pydate
  hour :: nat
  minute :: nat
  second :: nat
  microsecond :: nat

text \<open>
  \<open>WorkflowTemplate.created_date\<close> and \<open>last_updated\<close> are declared \<open>datetime\<close>, but
  \<open>save_templates\<close> stores the result of \<open>isoformat()\<close> back into the live
  \<open>__dict__\<close> of every template, so at run time each of the two attributes holds either
  a \<open>datetime\<close> or the ISO string of one.
\<close>

datatype date_attr = AsDatetime datetime | AsIsoString datetime

record WorkflowStep =
  step_id :: string
  step_type :: WorkflowStepType
  selector :: string
  action :: string
  step_value :: string
  step_description :: string
  required :: bool
  retry_count :: int
  max_retries :: int
  delay_after :: real
  conditions :: "(string \<times> string) list"

record JobPosting =
  posting_id :: string
  job_id :: string
  title :: string
  company :: string
  location :: string
  url :: string
  job_description :: string
  requirements :: "string list"
  salary_range :: string
  job_type :: string
  experience_level :: string
  posted_date :: datetime
  easy_apply_available :: bool
  application_deadline :: "datetime option"

record ApplicationRecord =
  app_id :: string
  job_posting :: JobPosting
  status :: ApplicationStatus
  applied_date :: datetime
  workflow_used :: string
  screening_responses :: "(string \<times> string) list"
  cover_letter :: string
  resume_used :: string
  app_notes :: string
  follow_up_dates :: "datetime list"

record WorkflowTemplate =
  template_id :: string
  name :: string
  template_description :: string
  company_pattern :: string
  job_type_pattern :: string
  steps :: "WorkflowStep list"
  success_rate :: real
  usage_count :: int
  created_date :: date_attr
  last_updated :: date_attr
  tags :: "string list"

text \<open>The dataclass constructors with the defaults of the source.\<close>

definition new_WorkflowStep :: "string \<Rightarrow> WorkflowStep" where
  "new_WorkflowStep uuid =
     \<lparr>step_id = uuid, step_type = CLICK, selector = [], action = [], step_value = [],
      step_description = [], required = True, retry_count = 0, max_retries = 3,
      delay_after = 1, conditions = []\<rparr>"

definition new_WorkflowTemplate :: "string \<Rightarrow> datetime \<Rightarrow> WorkflowTemplate" where
  "new_WorkflowTemplate uuid now =
     \<lparr>template_id = uuid, name = [], template_description = [], company_pattern = [],
      job_type_pattern = [], steps = [], success_rate = 0, usage_count = 0,
      created_date = AsDatetime now, last_updated = AsDatetime now, tags = []\<rparr>"

definition new_JobPosting :: "string \<Rightarrow> datetime \<Rightarrow> JobPosting" where
  "new_JobPosting uuid now =
     \<lparr>posting_id = uuid, job_id = [], title = [], company = [], location = [], url = [],
      job_description = [], requirements = [], salary_range = [], job_type = [],
      experience_level = [], posted_date = now, easy_apply_available = False,
      application_deadline = None\<rparr>"

definition new_ApplicationRecord ::
  "string \<Rightarrow> datetime \<Rightarrow> JobPosting \<Rightarrow> ApplicationRecord" where
  "new_ApplicationRecord uuid now job =
     \<lparr>app_id = uuid, job_posting = job, status = PENDING, applied_date = now,
      workflow_used = [], screening_responses = [], cover_letter = [], resume_used = [],
      app_notes = [], follow_up_dates = []\<rparr>"

section \<open>Floats\<close>

text \<open>
  A double is a sign, 53 significant bits and an exponent; below \<open>2^-1022\<close> the
  spacing stays \<open>2^-1074\<close> (subnormal numbers). For \<open>x \<noteq> 0\<close>, \<open>binade x\<close> is the
  exponent \<open>k\<close> with \<open>2^k \<le> \<bar>x\<bar> < 2^(k+1)\<close>, computed from the number of bits of
  the integer part of \<open>\<bar>x\<bar>\<close> or of its reciprocal; \<open>two_to e\<close> is \<open>2^e\<close> for an
  integer \<open>e\<close>; \<open>quantum x\<close> is the spacing of the doubles around \<open>x\<close>, and
  \<open>round_double x\<close> the double nearest to \<open>x\<close>, the even one of two equally near,
  with no upper limit on the exponent. The sign of zero is not modelled.
\<close>

definition binade :: "real \<Rightarrow> int" where
  "binade x =
     (if 1 \<le> \<bar>x\<bar> then bitlen \<lfloor>\<bar>x\<bar>\<rfloor> - 1 else - bitlen (\<lceil>1 / \<bar>x\<bar>\<rceil> - 1))"

definition two_to :: "int \<Rightarrow> real" where
  "two_to e = (if 0 \<le> e then 2 ^ nat e else 1 / 2 ^ nat (- e))"

definition quantum :: "real \<Rightarrow> real" where
  "quantum x = two_to (max (binade x - 52) (- 1074))"

definition round_half_even :: "real \<Rightarrow> int" where
  "round_half_even y =
     (let f = \<lfloor>y\<rfloor>
      in if y - real_of_int f < 1 / 2 then f
         else if 1 / 2 < y - real_of_int f then f + 1
         else if even f then f else f + 1)"

definition round_double :: "real \<Rightarrow> real" where
  "round_double x =
     (if x = 0 then 0 else real_of_int (round_half_even (x / quantum x)) * quantum x)"

text \<open>
  The result of a float operation with exact result \<open>x\<close>: the rounded value, or
  \<open>inf\<close> when that reaches \<open>2^1024\<close>. Converting an \<open>int\<close> for a float operation
  rounds in the same way and raises \<open>OverflowError\<close> instead of giving \<open>inf\<close>.
\<close>

definition as_float :: "real \<Rightarrow> py_error + real" where
  "as_float x =
     (if 2 ^ 1024 \<le> \<bar>round_double x\<bar> then Inl FloatNotFinite else Inr (round_double x))"

definition float_of_int :: "int \<Rightarrow> py_error + real" where
  "float_of_int n =
     (if 2 ^ 1024 \<le> \<bar>round_double (real_of_int n)\<bar> then Inl OverflowError
      else Inr (round_double (real_of_int n)))"

section \<open>WorkflowEngine\<close>

record WorkflowEngine =
  templates :: "(string \<times> WorkflowTemplate) list"
  active_workflows :: "(string \<times> WorkflowStep list) list"
  recording_mode :: bool
  templates_file :: "WorkflowTemplate list option"

subsection \<open>save_templates\<close>

text \<open>
  \<open>data = [template.__dict__ for ...]\<close> collects the live attribute dictionaries, so the
  conversion loop rewrites the templates themselves. \<open>isoformat\<close> exists on a
  \<open>datetime\<close> only: on an attribute that already is a string the loop raises
  \<open>AttributeError\<close>, leaving the templates before it converted and the file untouched.
\<close>

fun convert_dates ::
  "(string \<times> WorkflowTemplate) list \<Rightarrow> py_error option \<times> (string \<times> WorkflowTemplate) list" where
  "convert_dates [] = (None, [])"
| "convert_dates ((k, t) # rest) =
     (case created_date t of
        AsIsoString _ \<Rightarrow> (Some AttributeError, (k, t) # rest)
      | AsDatetime c \<Rightarrow>
          (case last_updated t of
             AsIsoString _ \<Rightarrow>
               (Some AttributeError, (k, t\<lparr>created_date := AsIsoString c\<rparr>) # rest)
           | AsDatetime u \<Rightarrow>
               (case convert_dates rest of
                  (err, rest') \<Rightarrow>
                    (err, (k, t\<lparr>created_date := AsIsoString c,
                                last_updated := AsIsoString u\<rparr>) # rest'))))"

definition save_templates :: "WorkflowEngine \<Rightarrow> (py_error + unit) \<times> WorkflowEngine" where
  "save_templates e =
     (case convert_dates (templates e) of
        (Some err, ts) \<Rightarrow> (Inl err, e\<lparr>templates := ts\<rparr>)
      | (None, ts) \<Rightarrow>
          (Inr (), e\<lparr>templates := ts, templates_file := Some (map snd ts)\<rparr>))"

subsection \<open>Recording\<close>

definition start_recording_workflow ::
  "string \<Rightarrow> string \<Rightarrow> WorkflowEngine \<Rightarrow> string \<times> WorkflowEngine" where
  "start_recording_workflow uuid workflow_name e =
     (uuid, e\<lparr>active_workflows := AList.update uuid [] (active_workflows e),
               recording_mode := True\<rparr>)"

definition record_step :: "string \<Rightarrow> WorkflowStep \<Rightarrow> WorkflowEngine \<Rightarrow> WorkflowEngine" where
  "record_step workflow_id step e =
     (case map_of (active_workflows e) workflow_id of
        Some recorded \<Rightarrow>
          e\<lparr>active_workflows :=
              AList.update workflow_id (recorded @ [step]) (active_workflows e)\<rparr>
      | None \<Rightarrow> e)"

text \<open>
  \<open>stop_recording_workflow\<close> returns the template object it stored; the model returns
  the stored value as it is after \<open>save_templates\<close>, and a caller that assigns to its
  attributes updates the entry under \<open>template_id\<close>.
\<close>

definition stop_recording_workflow ::
  "string \<Rightarrow> datetime \<Rightarrow> string \<Rightarrow> string \<Rightarrow> string \<Rightarrow> WorkflowEngine
     \<Rightarrow> (py_error + WorkflowTemplate) \<times> WorkflowEngine" where
  "stop_recording_workflow uuid now workflow_id nm description e =
     (case map_of (active_workflows e) workflow_id of
        None \<Rightarrow> (Inl ValueError, e)
      | Some recorded \<Rightarrow>
          (let template = (new_WorkflowTemplate uuid now)
                 \<lparr>name := nm, template_description := description, steps := recorded\<rparr>;
               e1 = e\<lparr>templates := AList.update uuid template (templates e),
                      active_workflows := AList.delete workflow_id (active_workflows e),
                      recording_mode := False\<rparr>
           in case save_templates e1 of
                (Inl err, e2) \<Rightarrow> (Inl err, e2)
              | (Inr _, e2) \<Rightarrow>
                  (case map_of (templates e2) uuid of
                     Some stored \<Rightarrow> (Inr stored, e2)
                   | None \<Rightarrow> (Inr template, e2))))"

subsection \<open>Replay\<close>

text \<open>
  One call of the step executor either returns a boolean or raises. The executor is a
  parameter with a state of its own, so that it may answer differently from call to call;
  \<open>execute_step\<close> below is the one the module ships.
\<close>

datatype step_result = Done bool | Throws

type_synonym 'x executor = "WorkflowStep \<Rightarrow> JobPosting \<Rightarrow> 'x \<Rightarrow> step_result \<times> 'x"

definition execute_step :: "'x executor" where
  "execute_step step job_context x =
     (if step_type step = CLICK then (Done True, x)
      else if step_type step = FILL_FORM then (Done True, x)
      else if step_type step = SCREENING_QUESTION then (Done True, x)
      else (Done True, x))"

definition failed :: "step_result \<Rightarrow> bool" where
  "failed r = (case r of Done ok \<Rightarrow> \<not> ok | Throws \<Rightarrow> True)"

text \<open>
  The \<open>for\<close> loop of \<open>replay_workflow\<close>. The third argument is the variable \<open>success\<close>
  at the head of the iteration; the result is its value when the loop ends, the list of
  executor calls made (step and answer, in order), and the executor's state.
\<close>

fun replay_loop ::
  "'x executor \<Rightarrow> JobPosting \<Rightarrow> bool \<Rightarrow> WorkflowStep list \<Rightarrow> 'x
     \<Rightarrow> bool \<times> (WorkflowStep \<times> step_result) list \<times> 'x" where
  "replay_loop ex job success [] x = (success, [], x)"
| "replay_loop ex job success (step # rest) x =
     (case ex step job x of
        (Done ok, x1) \<Rightarrow>
          if \<not> ok \<and> required step then (ok, [(step, Done ok)], x1)
          else (case replay_loop ex job ok rest x1 of
                  (s, calls, x2) \<Rightarrow> (s, (step, Done ok) # calls, x2))
      | (Throws, x1) \<Rightarrow>
          if required step then (False, [(step, Throws)], x1)
          else (case replay_loop ex job success rest x1 of
                  (s, calls, x2) \<Rightarrow> (s, (step, Throws) # calls, x2)))"

text \<open>
  The statistics update of \<open>replay_workflow\<close>, after \<open>usage_count += 1\<close>:
  \<open>(success_rate * (usage_count - 1) + 1) / usage_count\<close>, without the \<open>+ 1\<close> for a
  failure. The operations run in this order, each rounding: \<open>usage_count - 1\<close> is
  converted, multiplied, one is added, \<open>usage_count\<close> is converted, and the division
  raises \<open>ZeroDivisionError\<close> for a zero divisor.
\<close>

definition updated_success_rate :: "bool \<Rightarrow> WorkflowTemplate \<Rightarrow> py_error + real" where
  "updated_success_rate success t =
     (case float_of_int (usage_count t - 1) of
        Inl err \<Rightarrow> Inl err
      | Inr k \<Rightarrow>
          (case as_float (success_rate t * k) of
             Inl err \<Rightarrow> Inl err
           | Inr p \<Rightarrow>
               (case (if success then as_float (p + 1) else Inr p) of
                  Inl err \<Rightarrow> Inl err
                | Inr s \<Rightarrow>
                    (case float_of_int (usage_count t) of
                       Inl err \<Rightarrow> Inl err
                     | Inr n \<Rightarrow>
                         if n = 0 then Inl ZeroDivisionError else as_float (s / n)))))"

definition replay_workflow ::
  "'x executor \<Rightarrow> datetime \<Rightarrow> string \<Rightarrow> JobPosting \<Rightarrow> WorkflowEngine \<Rightarrow> 'x
     \<Rightarrow> (py_error + bool) \<times> WorkflowEngine \<times> (WorkflowStep \<times> step_result) list \<times> 'x" where
  "replay_workflow ex now tid job_context e x =
     (case map_of (templates e) tid of
        None \<Rightarrow> (Inr False, e, [], x)
      | Some template \<Rightarrow>
          (case replay_loop ex job_context True (steps template) x of
             (success, calls, x1) \<Rightarrow>
               (let t1 = template\<lparr>usage_count := usage_count template + 1\<rparr>
                in case updated_success_rate success t1 of
                     Inl err \<Rightarrow>
                       (Inl err, e\<lparr>templates := AList.update tid t1 (templates e)\<rparr>, calls, x1)
                   | Inr rate \<Rightarrow>
                       (let t2 = t1\<lparr>success_rate := rate, last_updated := AsDatetime now\<rparr>;
                            e1 = e\<lparr>templates := AList.update tid t2 (templates e)\<rparr>
                        in case save_templates e1 of
                             (Inl err, e2) \<Rightarrow> (Inl err, e2, calls, x1)
                           | (Inr _, e2) \<Rightarrow> (Inr success, e2, calls, x1)))))"

subsection \<open>Matching\<close>

text \<open>
  \<open>str.lower\<close> on the code points below 256: the letters \<open>A\<close> to \<open>Z\<close> and the
  letters from \<open>0xC0\<close> to \<open>0xDE\<close>, the multiplication sign \<open>0xD7\<close> apart, move up by
  32; every other code point stays, and the length does not change.
\<close>

definition lower_char :: "char \<Rightarrow> char" where
  "lower_char c =
     (let n = (of_char c :: nat)
      in if (65 \<le> n \<and> n \<le> 90) \<or> (192 \<le> n \<and> n \<le> 222 \<and> n \<noteq> 215)
         then char_of (n + 32) else c)"

definition lower :: "string \<Rightarrow> string" where
  "lower s = map lower_char s"

text \<open>\<open>a in b\<close> on strings: \<open>a\<close> occurs in \<open>b\<close> as a contiguous run.\<close>

definition str_in :: "string \<Rightarrow> string \<Rightarrow> bool" where
  "str_in a b = sublist a b"

text \<open>
  The \<open>if\<close>/\<open>elif\<close> chain of the loop body. \<open>template.company_pattern and ...\<close> tests
  the pattern for truth first, and an empty string is false.
\<close>

definition template_matches :: "JobPosting \<Rightarrow> WorkflowTemplate \<Rightarrow> bool" where
  "template_matches job t =
     (if company_pattern t \<noteq> [] \<and> str_in (lower (company_pattern t)) (lower (company job))
      then True
      else if job_type_pattern t \<noteq> []
              \<and> str_in (lower (job_type_pattern t)) (lower (job_type job))
      then True
      else if list_ex (\<lambda>tag. str_in (lower tag) (lower (title job))) (tags t)
      then True
      else False)"

text \<open>
  \<open>list.sort(key=..., reverse=True)\<close>: a stable sort with every comparison reversed,
  that is, a stable ascending sort on the negated key.
\<close>

definition sort_reverse :: "('a \<Rightarrow> real) \<Rightarrow> 'a list \<Rightarrow> 'a list" where
  "sort_reverse key xs = sort_key (\<lambda>x. - key x) xs"

definition find_matching_templates :: "JobPosting \<Rightarrow> WorkflowEngine \<Rightarrow> WorkflowTemplate list" where
  "find_matching_templates job e =
     sort_reverse success_rate (filter (template_matches job) (map snd (templates e)))"

section \<open>ApplicationTracker\<close>

text \<open>The two entries of \<open>daily_limits\<close> are the two limit fields.\<close>

record ApplicationTracker =
  applications :: "(string \<times> ApplicationRecord) list"
  max_applications_per_day :: int
  min_delay_between_applications :: int
  applications_file :: "ApplicationRecord list option"

text \<open>
  \<open>save_applications\<close> converts a copy of each record's \<open>__dict__\<close>, so it changes no
  record and raises nothing.
\<close>

definition save_applications :: "ApplicationTracker \<Rightarrow> ApplicationTracker" where
  "save_applications tr = tr\<lparr>applications_file := Some (map snd (applications tr))\<rparr>"

definition can_apply_today :: "datetime \<Rightarrow> ApplicationTracker \<Rightarrow> bool" where
  "can_apply_today now tr =
     (let today = date_part now;
          today_applications =
            filter (\<lambda>app. date_part (applied_date app) = today) (map snd (applications tr))
      in int (length today_applications) < max_applications_per_day tr)"

definition record_application ::
  "string \<Rightarrow> datetime \<Rightarrow> JobPosting \<Rightarrow> string \<Rightarrow> ApplicationTracker
     \<Rightarrow> ApplicationRecord \<times> ApplicationTracker" where
  "record_application uuid now job workflow_id tr =
     (let app = (new_ApplicationRecord uuid now job)
                  \<lparr>workflow_used := workflow_id, status := SUBMITTED\<rparr>
      in (app, save_applications (tr\<lparr>applications := AList.update uuid app (applications tr)\<rparr>)))"

record ApplicationsSummary =
  total_applications :: int
  applications_by_status :: "(ApplicationStatus \<times> int) list"
  applications_today :: int
  daily_limit_remaining :: int

definition get_applications_summary :: "datetime \<Rightarrow> ApplicationTracker \<Rightarrow> ApplicationsSummary" where
  "get_applications_summary now tr =
     (let apps = map snd (applications tr);
          total = int (length apps);
          by_status =
            fold (\<lambda>app by.
                    AList.update (status app)
                      ((case map_of by (status app) of None \<Rightarrow> 0 | Some n \<Rightarrow> n) + 1) by)
                 apps [];
          today_count =
            int (length (filter (\<lambda>app. date_part (applied_date app) = date_part now) apps))
      in \<lparr>total_applications = total, applications_by_status = by_status,
          applications_today = today_count,
          daily_limit_remaining = max_applications_per_day tr - today_count\<rparr>)"

section \<open>LinkedInWorkflowAutomation\<close>

text \<open>
  A registered callback is a function on the state of the host that registered it.
  \<open>outside\<close> collects what one call of \<open>apply_to_job\<close> reads from the clock and from
  \<open>uuid7str\<close>.
\<close>

record 'h LinkedInWorkflowAutomation =
  workflow_engine :: WorkflowEngine
  application_tracker :: ApplicationTracker
  is_active :: bool
  automation_callbacks :: "(string \<Rightarrow> JobPosting \<Rightarrow> bool \<Rightarrow> 'h \<Rightarrow> 'h) list"
  host :: 'h

record outside =
  clock :: datetime
  workflow_uuid :: string
  step_uuid1 :: string
  step_uuid2 :: string
  step_uuid3 :: string
  template_uuid :: string
  application_uuid :: string

definition simulated_steps :: "outside \<Rightarrow> WorkflowStep list" where
  "simulated_steps out =
     [(new_WorkflowStep (step_uuid1 out))
        \<lparr>step_type := CLICK, selector := ''.jobs-apply-button'',
         step_description := ''Click Easy Apply button''\<rparr>,
      (new_WorkflowStep (step_uuid2 out))
        \<lparr>step_type := FILL_FORM, selector := ''#resume-upload'',
         step_description := ''Upload resume'', step_value := ''default_resume.pdf''\<rparr>,
      (new_WorkflowStep (step_uuid3 out))
        \<lparr>step_type := SCREENING_QUESTION,
         step_description := ''Answer screening questions''\<rparr>]"

definition manual_application_with_recording ::
  "outside \<Rightarrow> JobPosting \<Rightarrow> 'h LinkedInWorkflowAutomation
     \<Rightarrow> (py_error + bool) \<times> 'h LinkedInWorkflowAutomation" where
  "manual_application_with_recording out job a =
     (let workflow_name = company job @ ''_'' @ job_type job @ ''_application'';
          (workflow_id, e1) =
             start_recording_workflow (workflow_uuid out) workflow_name (workflow_engine a);
          e2 = fold (record_step workflow_id) (simulated_steps out) e1
      in case stop_recording_workflow (template_uuid out) (clock out) workflow_id workflow_name
                (''Workflow for '' @ company job @ '' '' @ job_type job @ '' positions'') e2 of
           (Inl err, e3) \<Rightarrow> (Inl err, a\<lparr>workflow_engine := e3\<rparr>)
         | (Inr template, e3) \<Rightarrow>
             (let template' = template
                    \<lparr>tags := [lower (job_type job), lower (company job)],
                     company_pattern := company job,
                     job_type_pattern := job_type job\<rparr>;
                  e4 = e3\<lparr>templates :=
                            AList.update (template_id template) template' (templates e3)\<rparr>
              in case save_templates e4 of
                   (Inl err, e5) \<Rightarrow> (Inl err, a\<lparr>workflow_engine := e5\<rparr>)
                 | (Inr _, e5) \<Rightarrow> (Inr True, a\<lparr>workflow_engine := e5\<rparr>)))"

definition apply_to_job ::
  "'x executor \<Rightarrow> outside \<Rightarrow> JobPosting \<Rightarrow> 'h LinkedInWorkflowAutomation \<Rightarrow> 'x
     \<Rightarrow> (py_error + bool) \<times> 'h LinkedInWorkflowAutomation \<times> 'x" where
  "apply_to_job ex out job a x =
     (case find_matching_templates job (workflow_engine a) of
        [] \<Rightarrow>
          (case manual_application_with_recording out job a of (r, a1) \<Rightarrow> (r, a1, x))
      | best_template # _ \<Rightarrow>
          (case replay_workflow ex (clock out) (template_id best_template) job
                  (workflow_engine a) x of
             (Inl err, e1, calls, x1) \<Rightarrow> (Inl err, a\<lparr>workflow_engine := e1\<rparr>, x1)
           | (Inr success, e1, calls, x1) \<Rightarrow>
               (if success
                then (let (app, tr1) =
                            record_application (application_uuid out) (clock out) job
                              (template_id best_template) (application_tracker a)
                      in (Inr success,
                          a\<lparr>workflow_engine := e1, application_tracker := tr1,
                            host := fold (\<lambda>callback h.
                                            callback ''application_submitted'' job success h)
                                         (automation_callbacks a) (host a)\<rparr>,
                          x1))
                else (Inr success, a\<lparr>workflow_engine := e1\<rparr>, x1))))"

section \<open>Notions used in the statements\<close>

text \<open>
  The value of \<open>success\<close> after one answer of the executor on a step that does not end
  the loop: a returned boolean replaces it, an exception on a step that is not required
  leaves it as it was.
\<close>

definition carry :: "bool \<Rightarrow> step_result \<Rightarrow> bool" where
  "carry success r = (case r of Done ok \<Rightarrow> ok | Throws \<Rightarrow> success)"

text \<open>
  \<open>dates_intact\<close>: every stored template still has \<open>datetime\<close> objects in both date
  attributes, as the dataclass declares them; this is the case exactly when
  \<open>save_templates\<close> does not raise.
\<close>

definition is_datetime :: "date_attr \<Rightarrow> bool" where
  "is_datetime d = (case d of AsDatetime _ \<Rightarrow> True | AsIsoString _ \<Rightarrow> False)"

definition dates_intact :: "(string \<times> WorkflowTemplate) list \<Rightarrow> bool" where
  "dates_intact ts =
     list_all (\<lambda>kt. is_datetime (created_date (snd kt)) \<and> is_datetime (last_updated (snd kt))) ts"

definition same_statistics :: "WorkflowTemplate \<Rightarrow> WorkflowTemplate \<Rightarrow> bool" where
  "same_statistics t t' =
     (usage_count t' = usage_count t \<and> success_rate t' = success_rate t \<and> steps t' = steps t)"

text \<open>
  The template as \<open>replay_workflow\<close> leaves it in memory before it saves, \<open>rate\<close>
  being the new success rate.
\<close>

definition counted :: "real \<Rightarrow> datetime \<Rightarrow> WorkflowTemplate \<Rightarrow> WorkflowTemplate" where
  "counted rate now t =
     t\<lparr>usage_count := usage_count t + 1, success_rate := rate,
       last_updated := AsDatetime now\<rparr>"

subsection \<open>Sample values\<close>

definition sample_now :: datetime where
  "sample_now = \<lparr>date_part = \<lparr>year = 2024, month = 5, day = 17\<rparr>,
                  hour = 9, minute = 30, second = 0, microsecond = 0\<rparr>"

definition sample_job :: JobPosting where
  "sample_job = (new_JobPosting ''job-1'' sample_now)
                  \<lparr>title := ''Senior Engineer'', company := ''Acme Corp'',
                   job_type := ''Full-time''\<rparr>"

text \<open>An executor that refuses every step and counts its calls.\<close>

definition refusing_executor :: "nat executor" where
  "refusing_executor step job n = (Done False, Suc n)"

definition engine_with :: "WorkflowTemplate \<Rightarrow> WorkflowEngine" where
  "engine_with t = \<lparr>templates = [(template_id t, t)], active_workflows = [],
                     recording_mode = False, templates_file = None\<rparr>"

definition three_required_steps :: WorkflowTemplate where
  "three_required_steps = (new_WorkflowTemplate ''t1'' sample_now)
     \<lparr>steps := [new_WorkflowStep ''s1'', new_WorkflowStep ''s2'', new_WorkflowStep ''s3'']\<rparr>"

definition empty_template :: WorkflowTemplate where
  "empty_template = new_WorkflowTemplate ''t0'' sample_now"

definition one_optional_step :: WorkflowTemplate where
  "one_optional_step = (new_WorkflowTemplate ''t2'' sample_now)
     \<lparr>steps := [(new_WorkflowStep ''s1'')\<lparr>required := False\<rparr>]\<rparr>"

text \<open>An executor that raises on every step.\<close>

definition throwing_executor :: "nat executor" where
  "throwing_executor step job n = (Throws, Suc n)"

subsection \<open>Successive replays of one template\<close>

text \<open>The two statistics of the template stored under an identifier.\<close>

definition statistics_of :: "WorkflowEngine \<Rightarrow> string \<Rightarrow> (int \<times> real) option" where
  "statistics_of e tid =
     map_option (\<lambda>t. (usage_count t, success_rate t)) (map_of (templates e) tid)"


text \<open>An executor that accepts every step and counts its calls.\<close>

definition accepting_executor :: "nat executor" where
  "accepting_executor step job n = (Done True, Suc n)"




subsection \<open>Templates made by recording\<close>

text \<open>
  The engine as \<open>__init__\<close> leaves it when no file exists, and the engine after one
  recording through the module: \<open>start_recording_workflow\<close>, one \<open>record_step\<close> for each
  step, \<open>stop_recording_workflow\<close>. The template is stored under \<open>''r1''\<close>.
\<close>

definition new_WorkflowEngine :: WorkflowEngine where
  "new_WorkflowEngine =
     \<lparr>templates = [], active_workflows = [], recording_mode = False, templates_file = None\<rparr>"

definition recorded_engine :: "WorkflowStep list \<Rightarrow> WorkflowEngine" where
  "recorded_engine sts =
     snd (stop_recording_workflow ''r1'' sample_now ''w1'' ''recorded'' []
            (fold (record_step ''w1'') sts
               (snd (start_recording_workflow ''w1'' ''recorded'' new_WorkflowEngine))))"

text \<open>The template as that recording leaves it in memory: the dates are strings.\<close>

definition recorded_template :: "WorkflowStep list \<Rightarrow> WorkflowTemplate" where
  "recorded_template sts =
     (new_WorkflowTemplate ''r1'' sample_now)
       \<lparr>name := ''recorded'', steps := sts,
        created_date := AsIsoString sample_now, last_updated := AsIsoString sample_now\<rparr>"

text \<open>An engine in which one recording is open.\<close>

definition recording_engine :: WorkflowEngine where
  "recording_engine = snd (start_recording_workflow ''w1'' ''first'' (engine_with empty_template))"

subsection \<open>The tracker\<close>

text \<open>The application records whose \<open>applied_date\<close> falls on a given day.\<close>

definition applications_on :: "pydate \<Rightarrow> ApplicationTracker \<Rightarrow> ApplicationRecord list" where
  "applications_on d tr =
     filter (\<lambda>app. date_part (applied_date app) = d) (map snd (applications tr))"

text \<open>
  The tracker as \<open>__init__\<close> leaves it when no file exists, and sample trackers with a
  limit of two applications a day: one application recorded the day before, then one and
  two on the sample day.
\<close>

definition new_ApplicationTracker :: ApplicationTracker where
  "new_ApplicationTracker =
     \<lparr>applications = [], max_applications_per_day = 50,
      min_delay_between_applications = 30, applications_file = None\<rparr>"

definition sample_yesterday :: datetime where
  "sample_yesterday = sample_now\<lparr>date_part := \<lparr>year = 2024, month = 5, day = 16\<rparr>\<rparr>"

definition tracker_one_today :: ApplicationTracker where
  "tracker_one_today =
     snd (record_application ''a2'' sample_now sample_job ''t1''
       (snd (record_application ''a1'' sample_yesterday sample_job ''t1''
          (new_ApplicationTracker\<lparr>max_applications_per_day := 2\<rparr>))))"

definition tracker_two_today :: ApplicationTracker where
  "tracker_two_today =
     snd (record_application ''a3'' sample_now sample_job ''t1'' tracker_one_today)"

subsection \<open>The matcher\<close>

text \<open>
  The three rules in the words of the specification: a pattern or a tag fires when it is
  a case-insensitive substring of the corresponding attribute of the job, with no further
  condition. This definition is the specification's, kept apart from
  \<open>template_matches\<close>, which is the code's.
\<close>

definition spec_rule_fires :: "JobPosting \<Rightarrow> WorkflowTemplate \<Rightarrow> bool" where
  "spec_rule_fires job t =
     (str_in (lower (company_pattern t)) (lower (company job))
      \<or> str_in (lower (job_type_pattern t)) (lower (job_type job))
      \<or> list_ex (\<lambda>tag. str_in (lower tag) (lower (title job))) (tags t))"

text \<open>
  Sample templates: one matching by its company pattern, one by a tag, one with the
  default (empty) patterns and no tags, and a second one matching by company with the
  rate of the first.
\<close>

definition by_company :: WorkflowTemplate where
  "by_company = (new_WorkflowTemplate ''m1'' sample_now)
     \<lparr>company_pattern := ''Acme'', success_rate := 1 / 4\<rparr>"

definition by_tag :: WorkflowTemplate where
  "by_tag = (new_WorkflowTemplate ''m2'' sample_now)
     \<lparr>tags := [''senior''], success_rate := 3 / 4\<rparr>"

definition by_company_too :: WorkflowTemplate where
  "by_company_too = (new_WorkflowTemplate ''m3'' sample_now)
     \<lparr>company_pattern := ''CORP'', success_rate := 1 / 4\<rparr>"

definition matcher_engine :: WorkflowEngine where
  "matcher_engine =
     \<lparr>templates = [(''m1'', by_company), (''t0'', empty_template), (''m2'', by_tag),
                   (''m3'', by_company_too)],
      active_workflows = [], recording_mode = False, templates_file = None\<rparr>"

subsection \<open>The orchestrator\<close>

text \<open>
  An automation as \<open>__init__\<close> leaves it when neither file exists (no templates, no
  applications), without callbacks, and the readings of one call of \<open>apply_to_job\<close>.
\<close>

definition fresh_automation :: "unit LinkedInWorkflowAutomation" where
  "fresh_automation =
     \<lparr>workflow_engine = \<lparr>templates = [], active_workflows = [], recording_mode = False,
                          templates_file = None\<rparr>,
      application_tracker = new_ApplicationTracker,
      is_active = False, automation_callbacks = [], host = ()\<rparr>"

definition sample_outside :: outside where
  "sample_outside =
     \<lparr>clock = sample_now, workflow_uuid = ''w1'', step_uuid1 = ''s1'', step_uuid2 = ''s2'',
      step_uuid3 = ''s3'', template_uuid = ''n1'', application_uuid = ''a1''\<rparr>"

section \<open>Rounding\<close>

lemma two_powr_int: "0 \<le> k \<Longrightarrow> (2::real) powr real_of_int k = 2 ^ nat k"
  using powr_realpow[of 2 "nat k"] by simp

lemma two_to_powr: "two_to e = 2 powr real_of_int e"
proof (cases "0 \<le> e")
  case True
  then show ?thesis by (simp add: two_to_def two_powr_int)
next
  case False
  then have n: "0 \<le> - e" by simp
  have "real_of_int e = - real_of_int (- e)" by simp
  then have "(2::real) powr real_of_int e = 1 / 2 powr real_of_int (- e)"
    by (simp only: powr_minus_divide)
  also have "(2::real) powr real_of_int (- e) = 2 ^ nat (- e)" by (rule two_powr_int[OF n])
  finally show ?thesis using False by (simp add: two_to_def)
qed

lemma quantum_powr: "quantum x = 2 powr real_of_int (max (binade x - 52) (- 1074))"
  by (simp add: quantum_def two_to_powr)

lemma binade_bounds:
  assumes "x \<noteq> 0"
  shows "2 powr real_of_int (binade x) \<le> \<bar>x\<bar>" "\<bar>x\<bar> < 2 powr real_of_int (binade x + 1)"
proof -
  have "2 powr real_of_int (binade x) \<le> \<bar>x\<bar> \<and> \<bar>x\<bar> < 2 powr real_of_int (binade x + 1)"
  proof (cases "1 \<le> \<bar>x\<bar>")
    case True
    let ?n = "\<lfloor>\<bar>x\<bar>\<rfloor>"
    let ?b = "bitlen ?n"
    from True have n: "0 < ?n" by linarith
    from n have b: "1 \<le> ?b" by (auto simp: bitlen_alt_def)
    from bitlen_bounds[OF n] have lo: "2 ^ nat (?b - 1) \<le> ?n" and hi: "?n < 2 ^ nat ?b"
      by simp_all
    have bin: "binade x = ?b - 1" using True by (simp add: binade_def)
    from lo have "real_of_int (2 ^ nat (?b - 1)) \<le> real_of_int ?n" by (rule of_int_le_iff[THEN iffD2])
    then have "(2::real) ^ nat (?b - 1) \<le> real_of_int ?n" by simp
    also have "\<dots> \<le> \<bar>x\<bar>" by linarith
    finally have "(2::real) ^ nat (?b - 1) \<le> \<bar>x\<bar>" .
    moreover have "(2::real) powr real_of_int (?b - 1) = 2 ^ nat (?b - 1)"
      by (rule two_powr_int) (use b in simp)
    ultimately have l: "2 powr real_of_int (?b - 1) \<le> \<bar>x\<bar>" by (simp only:)
    from hi have "?n + 1 \<le> 2 ^ nat ?b" by simp
    then have "real_of_int (?n + 1) \<le> real_of_int (2 ^ nat ?b)" by (rule of_int_le_iff[THEN iffD2])
    then have "real_of_int ?n + 1 \<le> 2 ^ nat ?b" by simp
    moreover have "\<bar>x\<bar> < real_of_int ?n + 1" by linarith
    ultimately have "\<bar>x\<bar> < 2 ^ nat ?b" by linarith
    moreover have "(2::real) powr real_of_int ?b = 2 ^ nat ?b"
      by (rule two_powr_int) (use b in simp)
    ultimately have h: "\<bar>x\<bar> < 2 powr real_of_int ?b" by (simp only:)
    have e: "?b - 1 + 1 = ?b" by simp
    from l h show ?thesis unfolding bin e by (rule conjI)
  next
    case False
    let ?z = "1 / \<bar>x\<bar>"
    let ?m = "\<lceil>?z\<rceil> - 1"
    let ?b = "bitlen ?m"
    from assms have pos: "0 < \<bar>x\<bar>" by simp
    with False have z: "1 < ?z" by simp
    then have m: "0 < ?m" by linarith
    from m have b: "1 \<le> ?b" by (auto simp: bitlen_alt_def)
    from bitlen_bounds[OF m] have lo: "2 ^ nat (?b - 1) \<le> ?m" and hi: "?m < 2 ^ nat ?b"
      by simp_all
    have bin: "binade x = - ?b" using False by (simp add: binade_def)
    have mz: "real_of_int ?m < ?z" "?z \<le> real_of_int ?m + 1" by linarith+
    from hi have "?m + 1 \<le> 2 ^ nat ?b" by simp
    then have "real_of_int (?m + 1) \<le> real_of_int (2 ^ nat ?b)" by (rule of_int_le_iff[THEN iffD2])
    then have "real_of_int ?m + 1 \<le> 2 ^ nat ?b" by simp
    with mz(2) have "?z \<le> 2 ^ nat ?b" by linarith
    then have "1 \<le> 2 ^ nat ?b * \<bar>x\<bar>" using pos by (simp add: field_simps)
    then have "1 / 2 ^ nat ?b \<le> \<bar>x\<bar>" by (simp add: field_simps)
    moreover have "2 powr real_of_int (- ?b) = 1 / 2 ^ nat ?b"
    proof -
      have "real_of_int (- ?b) = - real_of_int ?b" by simp
      then have "2 powr real_of_int (- ?b) = 1 / 2 powr real_of_int ?b"
        by (simp only: powr_minus_divide)
      moreover have "(2::real) powr real_of_int ?b = 2 ^ nat ?b"
        by (rule two_powr_int) (use b in simp)
      ultimately show ?thesis by (simp only:)
    qed
    ultimately have l: "2 powr real_of_int (- ?b) \<le> \<bar>x\<bar>" by (simp only:)
    from lo have "real_of_int (2 ^ nat (?b - 1)) \<le> real_of_int ?m" by (rule of_int_le_iff[THEN iffD2])
    then have "(2::real) ^ nat (?b - 1) \<le> real_of_int ?m" by simp
    with mz(1) have "2 ^ nat (?b - 1) < ?z" by linarith
    then have "2 ^ nat (?b - 1) * \<bar>x\<bar> < 1" using pos by (simp add: field_simps)
    then have "\<bar>x\<bar> < 1 / 2 ^ nat (?b - 1)" by (simp add: field_simps)
    moreover have "2 powr real_of_int (- ?b + 1) = 1 / 2 ^ nat (?b - 1)"
    proof -
      have "real_of_int (- ?b + 1) = - real_of_int (?b - 1)" by simp
      then have "2 powr real_of_int (- ?b + 1) = 1 / 2 powr real_of_int (?b - 1)"
        by (simp only: powr_minus_divide)
      moreover have "(2::real) powr real_of_int (?b - 1) = 2 ^ nat (?b - 1)"
        by (rule two_powr_int) (use b in simp)
      ultimately show ?thesis by (simp only:)
    qed
    ultimately have h: "\<bar>x\<bar> < 2 powr real_of_int (- ?b + 1)" by (simp only:)
    from l h show ?thesis unfolding bin by (rule conjI)
  qed
  then show "2 powr real_of_int (binade x) \<le> \<bar>x\<bar>" "\<bar>x\<bar> < 2 powr real_of_int (binade x + 1)"
    by simp_all
qed


lemma round_half_even_int: "round_half_even (real_of_int j) = j"
  by (simp add: round_half_even_def)

lemma round_half_even_near: "\<bar>real_of_int (round_half_even y) - y\<bar> \<le> 1 / 2"
proof -
  have "real_of_int \<lfloor>y\<rfloor> \<le> y" "y < real_of_int \<lfloor>y\<rfloor> + 1" by linarith+
  then show ?thesis by (auto simp: round_half_even_def Let_def)
qed


lemma quantum_pos: "0 < quantum x"
  by (simp add: quantum_powr)

lemma round_double_error:
  "\<bar>round_double x - x\<bar> \<le> \<bar>x\<bar> / 2 ^ 53 + 2 powr (- 1075)"
proof (cases "x = 0")
  case True
  then show ?thesis by (simp add: round_double_def)
next
  case False
  let ?q = "quantum x"
  have "\<bar>round_double x - x\<bar> = \<bar>real_of_int (round_half_even (x / ?q)) - x / ?q\<bar> * ?q"
  proof -
    have "round_double x - x = (real_of_int (round_half_even (x / ?q)) - x / ?q) * ?q"
      using False quantum_pos[of x] by (simp add: round_double_def field_simps)
    then show ?thesis using quantum_pos[of x] by (simp add: abs_mult)
  qed
  also have "\<dots> \<le> (1 / 2) * ?q"
    using round_half_even_near[of "x / ?q"] quantum_pos[of x] by (intro mult_right_mono) simp_all
  also have "\<dots> \<le> \<bar>x\<bar> / 2 ^ 53 + 2 powr (- 1075)"
  proof (cases "- 1074 \<le> binade x - 52")
    case True
    then have "max (binade x - 52) (- 1074) = binade x - 52" by simp
    then have "?q = 2 powr real_of_int (binade x - 52)" unfolding quantum_powr by simp
    also have "\<dots> = 2 powr real_of_int (binade x) / 2 ^ 52"
      by (simp add: powr_diff)
    also have "\<dots> \<le> \<bar>x\<bar> / 2 ^ 52"
      using binade_bounds(1)[OF False] by (simp add: divide_right_mono)
    finally have "(1 / 2) * ?q \<le> \<bar>x\<bar> / 2 ^ 53" by simp
    moreover have "(0::real) \<le> 2 powr (- 1075)" by simp
    ultimately show ?thesis by linarith
  next
    case False
    then have "max (binade x - 52) (- 1074) = - 1074" by simp
    then have "?q = 2 powr (- 1074)" unfolding quantum_powr by simp
    then have "(1 / 2) * ?q = 2 powr (- 1075)"
      by (simp add: powr_minus field_simps)
    moreover have "0 \<le> \<bar>x\<bar> / 2 ^ 53" by simp
    ultimately show ?thesis by linarith
  qed
  finally show ?thesis .
qed


lemma round_double_of_quantum:
  assumes "x \<noteq> 0" and "x / quantum x = real_of_int j"
  shows "round_double x = x"
proof -
  have "round_double x = real_of_int j * quantum x"
    using assms by (simp add: round_double_def round_half_even_int)
  also have "\<dots> = x" using assms(2) quantum_pos[of x] by (simp add: field_simps)
  finally show ?thesis .
qed

lemma round_double_representable:
  assumes m: "\<bar>m\<bar> < 2 ^ 53" and q: "- 1074 \<le> q"
    and x: "x = real_of_int m * 2 powr real_of_int q"
  shows "round_double x = x"
proof (cases "x = 0")
  case True
  then show ?thesis by (simp add: round_double_def)
next
  case False
  let ?k = "binade x"
  let ?e = "max (?k - 52) (- 1074)"
  have "2 powr real_of_int ?k \<le> \<bar>x\<bar>" by (rule binade_bounds(1)[OF False])
  also have "\<bar>x\<bar> = \<bar>real_of_int m\<bar> * 2 powr real_of_int q" by (simp add: x abs_mult)
  also have "\<dots> < 2 ^ 53 * 2 powr real_of_int q"
  proof -
    from m have "\<bar>real_of_int m\<bar> < 2 ^ 53"
      by (metis of_int_abs of_int_less_numeral_power_cancel_iff)
    then show ?thesis by (simp add: mult_strict_right_mono)
  qed
  also have "\<dots> = 2 powr real_of_int (53 + q)"
    by (simp add: powr_add powr_realpow[symmetric])
  finally have "real_of_int ?k < real_of_int (53 + q)" by simp
  then have "?k - 52 \<le> q" by linarith
  with q have le: "?e \<le> q" by simp
  define d where "d = nat (q - ?e)"
  have qd: "real_of_int q = real_of_int ?e + real d" using le by (simp add: d_def)
  have "x / quantum x = real_of_int m * (2 powr real_of_int q / 2 powr real_of_int ?e)"
    by (simp add: x quantum_powr)
  also have "2 powr real_of_int q / 2 powr real_of_int ?e = 2 powr real d"
    unfolding qd by (simp add: powr_add)
  also have "\<dots> = 2 ^ d" by (simp add: powr_realpow)
  also have "real_of_int m * 2 ^ d = real_of_int (m * 2 ^ d)" by simp
  finally show ?thesis by (rule round_double_of_quantum[OF False])
qed

lemma round_double_of_int:
  assumes "\<bar>n\<bar> < 2 ^ 53"
  shows "round_double (real_of_int n) = real_of_int n"
  by (rule round_double_representable[OF assms, of 0]) simp_all



lemma round_double_zero: "round_double 0 = 0"
  by (simp add: round_double_def)

lemma round_double_bound:
  "\<bar>round_double x\<bar> \<le> 2 * \<bar>x\<bar> + 1"
proof -
  have "(2::real) powr (- 1075) \<le> 2 powr 0" by (rule powr_mono) simp_all
  then have "(2::real) powr (- 1075) \<le> 1" by simp
  moreover have "\<bar>x\<bar> / 2 ^ 53 \<le> \<bar>x\<bar>" by (simp add: field_simps)
  ultimately show ?thesis using round_double_error[of x] by linarith
qed

lemma as_float_exact:
  assumes "round_double x = x" and "\<bar>x\<bar> < 2 ^ 1024"
  shows "as_float x = Inr x"
  using assms by (simp add: as_float_def)

lemma float_of_int_small:
  assumes "\<bar>n\<bar> < 2 ^ 53"
  shows "float_of_int n = Inr (real_of_int n)"
proof -
  have "\<bar>real_of_int n\<bar> < 2 ^ 53"
    using assms by (metis of_int_abs of_int_less_numeral_power_cancel_iff)
  also have "(2::real) ^ 53 \<le> 2 ^ 1024" by (rule power_increasing) simp_all
  finally show ?thesis by (simp add: float_of_int_def round_double_of_int[OF assms])
qed

lemma as_float_Inr: "as_float x = Inr y \<Longrightarrow> y = round_double x"
  by (simp add: as_float_def split: if_splits)

lemma as_float_small:
  assumes "\<bar>x\<bar> \<le> 2 ^ 64"
  shows "as_float x = Inr (round_double x)"
proof -
  have "\<bar>round_double x\<bar> \<le> 2 * \<bar>x\<bar> + 1" by (rule round_double_bound)
  also have "\<dots> \<le> 2 * 2 ^ 64 + 1" using assms by simp
  also have "\<dots> < (2::real) ^ 66" by simp
  also have "(2::real) ^ 66 \<le> 2 ^ 1024" by (rule power_increasing) simp_all
  finally show ?thesis by (simp add: as_float_def)
qed

section \<open>Persistence of the templates\<close>

lemma convert_dates_intact:
  "dates_intact ts \<Longrightarrow> fst (convert_dates ts) = None"
proof (induction ts)
  case Nil then show ?case by simp
next
  case (Cons kt ts)
  obtain k t where kt: "kt = (k, t)" by (cases kt)
  from Cons.prems obtain c u where cu: "created_date t = AsDatetime c" "last_updated t = AsDatetime u"
    unfolding kt dates_intact_def is_datetime_def
    by (cases "created_date t"; cases "last_updated t") simp_all
  from Cons.prems have "dates_intact ts" by (simp add: dates_intact_def)
  with Cons.IH have "fst (convert_dates ts) = None" by simp
  then show ?case unfolding kt by (auto simp: cu split: prod.splits)
qed

lemma convert_dates_not_intact:
  "\<not> dates_intact ts \<Longrightarrow> fst (convert_dates ts) = Some AttributeError"
proof (induction ts)
  case Nil then show ?case by (simp add: dates_intact_def)
next
  case (Cons kt ts)
  obtain k t where kt: "kt = (k, t)" by (cases kt)
  show ?case
  proof (cases "created_date t")
    case (AsIsoString c)
    then show ?thesis unfolding kt by simp
  next
    case c: (AsDatetime c)
    show ?thesis
    proof (cases "last_updated t")
      case (AsIsoString u)
      then show ?thesis unfolding kt by (simp add: c)
    next
      case u: (AsDatetime u)
      with c Cons.prems have "\<not> dates_intact ts"
        unfolding kt by (simp add: dates_intact_def is_datetime_def)
      with Cons.IH have "fst (convert_dates ts) = Some AttributeError" by simp
      then show ?thesis unfolding kt by (auto simp: c u split: prod.splits)
    qed
  qed
qed

lemma convert_dates_lookup:
  "map_of ts k = Some t \<Longrightarrow>
   \<exists>t'. map_of (snd (convert_dates ts)) k = Some t' \<and> same_statistics t t'"
proof (induction ts)
  case Nil then show ?case by simp
next
  case (Cons kt ts)
  obtain k0 t0 where kt: "kt = (k0, t0)" by (cases kt)
  show ?case
  proof (cases "k0 = k")
    case True
    with Cons.prems kt have "t0 = t" by simp
    with True show ?thesis unfolding kt
      by (cases "created_date t"; cases "last_updated t"; cases "convert_dates ts")
         (simp_all add: same_statistics_def)
  next
    case False
    with Cons.prems kt have m: "map_of ts k = Some t" by simp
    from Cons.IH[OF m] m False show ?thesis unfolding kt
      by (cases "created_date t0"; cases "last_updated t0"; cases "convert_dates ts")
         (simp_all add: same_statistics_def)
  qed
qed

lemma save_templates_intact:
  "dates_intact (templates e) \<Longrightarrow> fst (save_templates e) = Inr ()"
  using convert_dates_intact[of "templates e"]
  by (cases "convert_dates (templates e)") (simp add: save_templates_def)

lemma save_templates_not_intact:
  "\<not> dates_intact (templates e) \<Longrightarrow> fst (save_templates e) = Inl AttributeError"
  using convert_dates_not_intact[of "templates e"]
  by (cases "convert_dates (templates e)") (simp add: save_templates_def)

lemma templates_save_templates:
  "templates (snd (save_templates e)) = snd (convert_dates (templates e))"
  by (cases "convert_dates (templates e)"; cases "fst (convert_dates (templates e))")
     (simp_all add: save_templates_def)

lemma save_templates_lookup:
  "map_of (templates e) k = Some t \<Longrightarrow>
   \<exists>t'. map_of (templates (snd (save_templates e))) k = Some t' \<and> same_statistics t t'"
  unfolding templates_save_templates by (rule convert_dates_lookup)

lemma dates_intact_update:
  "dates_intact ts \<Longrightarrow> is_datetime (created_date t) \<Longrightarrow> is_datetime (last_updated t) \<Longrightarrow>
   dates_intact (AList.update k t ts)"
  by (induction ts) (auto simp: dates_intact_def)

lemma dates_intact_lookup:
  "dates_intact ts \<Longrightarrow> map_of ts k = Some t \<Longrightarrow>
   is_datetime (created_date t) \<and> is_datetime (last_updated t)"
  by (induction ts) (auto simp: dates_intact_def split: if_splits)

lemma save_templates_raised_file:
  "fst (save_templates e) = Inl err \<Longrightarrow> templates_file (snd (save_templates e)) = templates_file e"
  by (cases "convert_dates (templates e)"; cases "fst (convert_dates (templates e))")
     (simp_all add: save_templates_def)

section \<open>The replay loop\<close>

lemma failed_simps [simp]: "failed (Done ok) = (\<not> ok)" "failed Throws"
  by (simp_all add: failed_def)

lemma carry_simps [simp]: "carry s (Done ok) = ok" "carry s Throws = s"
  by (simp_all add: carry_def)

lemma replay_loop_Cons:
  "replay_loop ex job s (st # rest) x =
     (if required st \<and> failed (fst (ex st job x))
      then (False, [(st, fst (ex st job x))], snd (ex st job x))
      else (fst (replay_loop ex job (carry s (fst (ex st job x))) rest (snd (ex st job x))),
            (st, fst (ex st job x))
              # fst (snd (replay_loop ex job (carry s (fst (ex st job x))) rest (snd (ex st job x)))),
            snd (snd (replay_loop ex job (carry s (fst (ex st job x))) rest (snd (ex st job x))))))"
proof -
  obtain r x1 where e: "ex st job x = (r, x1)" by (cases "ex st job x")
  show ?thesis
  proof (cases r)
    case (Done ok)
    obtain a b c where "replay_loop ex job ok rest x1 = (a, b, c)"
      by (cases "replay_loop ex job ok rest x1")
    with e Done show ?thesis by simp
  next
    case Throws
    obtain a b c where "replay_loop ex job s rest x1 = (a, b, c)"
      by (cases "replay_loop ex job s rest x1")
    with e Throws show ?thesis by simp
  qed
qed


lemma replay_loop_calls_prefix:
  "map fst (fst (snd (replay_loop ex job s sts x)))
     = take (length (fst (snd (replay_loop ex job s sts x)))) sts"
  by (induction sts arbitrary: s x) (simp_all add: replay_loop_Cons del: replay_loop.simps(2))

lemma replay_loop_length_calls:
  "length (fst (snd (replay_loop ex job s sts x))) \<le> length sts"
  by (induction sts arbitrary: s x) (simp_all add: replay_loop_Cons del: replay_loop.simps(2))

lemma replay_loop_abort:
  "i < length (fst (snd (replay_loop ex job s sts x))) \<Longrightarrow>
   required (fst (fst (snd (replay_loop ex job s sts x)) ! i)) \<Longrightarrow>
   failed (snd (fst (snd (replay_loop ex job s sts x)) ! i)) \<Longrightarrow>
   length (fst (snd (replay_loop ex job s sts x))) = Suc i \<and> \<not> fst (replay_loop ex job s sts x)"
proof (induction sts arbitrary: s x i)
  case Nil
  then show ?case by simp
next
  case (Cons st rest)
  let ?r = "fst (ex st job x)"
  let ?R = "replay_loop ex job (carry s ?r) rest (snd (ex st job x))"
  show ?case
  proof (cases "required st \<and> failed ?r")
    case True
    then have eq: "replay_loop ex job s (st # rest) x = (False, [(st, ?r)], snd (ex st job x))"
      unfolding replay_loop_Cons by (rule if_P)
    from Cons.prems(1) show ?thesis unfolding eq by simp
  next
    case False
    then have eq: "replay_loop ex job s (st # rest) x
                     = (fst ?R, (st, ?r) # fst (snd ?R), snd (snd ?R))"
      unfolding replay_loop_Cons by (rule if_not_P)
    show ?thesis
    proof (cases i)
      case 0
      with False Cons.prems(2,3) show ?thesis unfolding eq by simp
    next
      case (Suc j)
      with Cons.prems have "j < length (fst (snd ?R))" "required (fst (fst (snd ?R) ! j))"
        "failed (snd (fst (snd ?R) ! j))"
        unfolding eq by simp_all
      from Cons.IH[OF this] Suc show ?thesis unfolding eq by simp
    qed
  qed
qed

lemma replay_loop_complete:
  "\<forall>c \<in> set (fst (snd (replay_loop ex job s sts x))). \<not> (required (fst c) \<and> failed (snd c)) \<Longrightarrow>
   length (fst (snd (replay_loop ex job s sts x))) = length sts"
proof (induction sts arbitrary: s x)
  case Nil
  then show ?case by simp
next
  case (Cons st rest)
  let ?r = "fst (ex st job x)"
  let ?R = "replay_loop ex job (carry s ?r) rest (snd (ex st job x))"
  show ?case
  proof (cases "required st \<and> failed ?r")
    case True
    then have eq: "replay_loop ex job s (st # rest) x = (False, [(st, ?r)], snd (ex st job x))"
      unfolding replay_loop_Cons by (rule if_P)
    from Cons.prems True show ?thesis unfolding eq by simp
  next
    case False
    then have eq: "replay_loop ex job s (st # rest) x
                     = (fst ?R, (st, ?r) # fst (snd ?R), snd (snd ?R))"
      unfolding replay_loop_Cons by (rule if_not_P)
    from Cons.prems have "\<forall>c \<in> set (fst (snd ?R)). \<not> (required (fst c) \<and> failed (snd c))"
      unfolding eq by simp
    from Cons.IH[OF this] show ?thesis unfolding eq by simp
  qed
qed

text \<open>
  The executor's state after the loop is its state after one call for each logged step,
  and each logged answer is the executor's answer in the state the earlier calls left.
\<close>

lemma replay_loop_state:
  "snd (snd (replay_loop ex job s sts x))
     = fold (\<lambda>st y. snd (ex st job y))
         (take (length (fst (snd (replay_loop ex job s sts x)))) sts) x"
  by (induction sts arbitrary: s x) (simp_all add: replay_loop_Cons del: replay_loop.simps(2))

lemma replay_loop_answers:
  "i < length (fst (snd (replay_loop ex job s sts x))) \<Longrightarrow>
   fst (snd (replay_loop ex job s sts x)) ! i
     = (sts ! i, fst (ex (sts ! i) job (fold (\<lambda>st y. snd (ex st job y)) (take i sts) x)))"
proof (induction sts arbitrary: s x i)
  case Nil
  then show ?case by simp
next
  case (Cons st rest)
  let ?r = "fst (ex st job x)"
  let ?R = "replay_loop ex job (carry s ?r) rest (snd (ex st job x))"
  show ?case
  proof (cases "required st \<and> failed ?r")
    case True
    then have eq: "replay_loop ex job s (st # rest) x = (False, [(st, ?r)], snd (ex st job x))"
      unfolding replay_loop_Cons by (rule if_P)
    from Cons.prems show ?thesis unfolding eq by simp
  next
    case False
    then have eq: "replay_loop ex job s (st # rest) x
                     = (fst ?R, (st, ?r) # fst (snd ?R), snd (snd ?R))"
      unfolding replay_loop_Cons by (rule if_not_P)
    show ?thesis
    proof (cases i)
      case 0
      then show ?thesis unfolding eq by simp
    next
      case (Suc j)
      with Cons.prems have "j < length (fst (snd ?R))" unfolding eq by simp
      from Cons.IH[OF this] Suc show ?thesis unfolding eq by simp
    qed
  qed
qed

section \<open>replay_workflow\<close>

lemma replay_workflow_unknown:
  "map_of (templates e) tid = None \<Longrightarrow> replay_workflow ex now tid job e x = (Inr False, e, [], x)"
  by (simp add: replay_workflow_def)

lemma replay_workflow_updated:
  assumes "map_of (templates e) tid = Some t"
    and "updated_success_rate (fst (replay_loop ex job True (steps t) x))
           (t\<lparr>usage_count := usage_count t + 1\<rparr>) = Inr rate"
  shows "replay_workflow ex now tid job e x =
           (case fst (save_templates
                        (e\<lparr>templates := AList.update tid (counted rate now t) (templates e)\<rparr>)) of
              Inl err \<Rightarrow> Inl err
            | Inr u \<Rightarrow> Inr (fst (replay_loop ex job True (steps t) x)),
            snd (save_templates
                   (e\<lparr>templates := AList.update tid (counted rate now t) (templates e)\<rparr>)),
            fst (snd (replay_loop ex job True (steps t) x)),
            snd (snd (replay_loop ex job True (steps t) x)))"
  unfolding replay_workflow_def counted_def
  by (simp add: assms case_prod_unfold Let_def split: sum.split)

lemma replay_workflow_not_updated:
  assumes "map_of (templates e) tid = Some t"
    and "updated_success_rate (fst (replay_loop ex job True (steps t) x))
           (t\<lparr>usage_count := usage_count t + 1\<rparr>) = Inl err"
  shows "replay_workflow ex now tid job e x =
           (Inl err,
            e\<lparr>templates := AList.update tid (t\<lparr>usage_count := usage_count t + 1\<rparr>) (templates e)\<rparr>,
            fst (snd (replay_loop ex job True (steps t) x)),
            snd (snd (replay_loop ex job True (steps t) x)))"
  unfolding replay_workflow_def
  by (simp add: assms case_prod_unfold Let_def)

lemma counted_fields [simp]:
  "usage_count (counted rate now t) = usage_count t + 1"
  "success_rate (counted rate now t) = rate"
  "steps (counted rate now t) = steps t"
  "created_date (counted rate now t) = created_date t"
  "last_updated (counted rate now t) = AsDatetime now"
  by (simp_all add: counted_def)

lemma map_of_update_same: "map_of (AList.update k v al) k = Some v"
  by (simp add: update_conv')

lemma replay_workflow_calls:
  assumes "map_of (templates e) tid = Some t"
  shows "fst (snd (snd (replay_workflow ex now tid job e x)))
           = fst (snd (replay_loop ex job True (steps t) x))"
proof (cases "updated_success_rate (fst (replay_loop ex job True (steps t) x))
                (t\<lparr>usage_count := usage_count t + 1\<rparr>)")
  case (Inl err)
  then show ?thesis by (simp add: replay_workflow_not_updated[OF assms])
next
  case (Inr rate)
  then show ?thesis by (simp add: replay_workflow_updated[OF assms])
qed

lemma replay_workflow_state:
  assumes "map_of (templates e) tid = Some t"
  shows "snd (snd (snd (replay_workflow ex now tid job e x)))
           = snd (snd (replay_loop ex job True (steps t) x))"
proof (cases "updated_success_rate (fst (replay_loop ex job True (steps t) x))
                (t\<lparr>usage_count := usage_count t + 1\<rparr>)")
  case (Inl err)
  then show ?thesis by (simp add: replay_workflow_not_updated[OF assms])
next
  case (Inr rate)
  then show ?thesis by (simp add: replay_workflow_updated[OF assms])
qed

lemma replay_workflow_statistics:
  assumes "map_of (templates e) tid = Some t"
    and "updated_success_rate (fst (replay_loop ex job True (steps t) x))
           (t\<lparr>usage_count := usage_count t + 1\<rparr>) = Inr rate"
  shows "statistics_of (fst (snd (replay_workflow ex now tid job e x))) tid
           = Some (usage_count t + 1, rate)"
proof -
  let ?e1 = "e\<lparr>templates := AList.update tid (counted rate now t) (templates e)\<rparr>"
  have "map_of (templates ?e1) tid = Some (counted rate now t)" by (simp add: map_of_update_same)
  from save_templates_lookup[OF this] show ?thesis
    by (auto simp: replay_workflow_updated[OF assms] statistics_of_def same_statistics_def)
qed

lemma replay_workflow_intact:
  assumes "map_of (templates e) tid = Some t"
    and "updated_success_rate (fst (replay_loop ex job True (steps t) x))
           (t\<lparr>usage_count := usage_count t + 1\<rparr>) = Inr rate"
    and "dates_intact (templates e)"
  shows "fst (replay_workflow ex now tid job e x) = Inr (fst (replay_loop ex job True (steps t) x))"
proof -
  let ?c = "counted rate now t"
  let ?e1 = "e\<lparr>templates := AList.update tid ?c (templates e)\<rparr>"
  from dates_intact_lookup[OF assms(3,1)] have "is_datetime (created_date ?c)" by simp
  moreover have "is_datetime (last_updated ?c)" by (simp add: is_datetime_def)
  ultimately have "dates_intact (templates ?e1)"
    using assms(3) by (simp add: dates_intact_update)
  from save_templates_intact[OF this] show ?thesis
    by (simp add: replay_workflow_updated[OF assms(1,2)])
qed

lemma replay_workflow_result:
  assumes "map_of (templates e) tid = Some t"
  shows "fst (replay_workflow ex now tid job e x) = Inr (fst (replay_loop ex job True (steps t) x))
       \<or> fst (replay_workflow ex now tid job e x) = Inl AttributeError
       \<or> fst (replay_workflow ex now tid job e x)
           = Inl (projl (updated_success_rate (fst (replay_loop ex job True (steps t) x))
                          (t\<lparr>usage_count := usage_count t + 1\<rparr>)))"
proof (cases "updated_success_rate (fst (replay_loop ex job True (steps t) x))
                (t\<lparr>usage_count := usage_count t + 1\<rparr>)")
  case (Inl err)
  then show ?thesis by (simp add: replay_workflow_not_updated[OF assms])
next
  case (Inr rate)
  let ?e1 = "e\<lparr>templates := AList.update tid (counted rate now t) (templates e)\<rparr>"
  have "fst (save_templates ?e1) = Inr () \<or> fst (save_templates ?e1) = Inl AttributeError"
    using save_templates_intact[of ?e1] save_templates_not_intact[of ?e1] by blast
  then show ?thesis
    by (auto simp: replay_workflow_updated[OF assms Inr])
qed


section \<open>The statistics update\<close>

lemma as_float_value:
  assumes "round_double x = y" and "\<bar>y\<bar> \<le> 2 ^ 64"
  shows "as_float x = Inr y"
proof -
  have "(2::real) ^ 64 < 2 ^ 1024" by (rule power_strict_increasing) simp_all
  with assms show ?thesis by (simp add: as_float_def)
qed

text \<open>The update evaluated step by step, as long as no operation overflows.\<close>

lemma updated_success_rate_value:
  assumes n: "usage_count t = n" "0 < n" "n < 2 ^ 53"
    and p: "round_double (success_rate t * real_of_int (n - 1)) = p" "\<bar>p\<bar> \<le> 2 ^ 64"
    and s: "(if b then round_double (p + 1) else p) = s" "\<bar>s\<bar> \<le> 2 ^ 64"
    and r: "round_double (s / real_of_int n) = r'" "\<bar>r'\<bar> \<le> 2 ^ 64"
  shows "updated_success_rate b t = Inr r'"
proof -
  from n have "\<bar>n - 1\<bar> < 2 ^ 53" "\<bar>n\<bar> < 2 ^ 53" by simp_all
  then have c: "float_of_int (n - 1) = Inr (real_of_int (n - 1))"
    "float_of_int n = Inr (real_of_int n)" by (simp_all add: float_of_int_small)
  have m: "as_float (success_rate t * real_of_int (n - 1)) = Inr p"
    by (rule as_float_value[OF p])
  have a: "(if b then as_float (p + 1) else Inr p) = Inr s"
  proof (cases b)
    case True
    with s have "round_double (p + 1) = s" by simp
    from as_float_value[OF this s(2)] True show ?thesis by simp
  next
    case False
    with s show ?thesis by simp
  qed
  have d: "as_float (s / real_of_int n) = Inr r'" by (rule as_float_value[OF r])
  from n(2) have nz: "real_of_int n \<noteq> 0" by simp
  show ?thesis unfolding updated_success_rate_def n(1) c
    by (simp only: sum.case m a d nz if_False)
qed

lemma round_double_one: "round_double 1 = 1"
  using round_double_of_int[of 1] by simp

lemma updated_success_rate_first:
  assumes "usage_count t = 1"
  shows "updated_success_rate b t = Inr (if b then 1 else 0)"
proof (rule updated_success_rate_value[OF assms, where p = 0 and s = "if b then 1 else 0"])
  show "round_double (success_rate t * real_of_int (1 - 1)) = 0" by (simp add: round_double_zero)
  show "(if b then round_double (0 + 1) else 0) = (if b then 1 else 0)"
    by (simp add: round_double_one)
  show "round_double ((if b then 1 else 0) / real_of_int 1) = (if b then 1 else 0)"
    by (simp add: round_double_one round_double_zero)
qed simp_all







section \<open>Replay of a template that was saved before\<close>

text \<open>
  On a template whose dates are strings already (every template that went through
  \<open>save_templates\<close> once), the statistics are updated in memory and the save at the
  end of the replay raises; the file keeps what it held.
\<close>

lemma replay_of_saved_template_raises:
  assumes "map_of (templates e) tid = Some t" and "\<not> is_datetime (created_date t)"
    and "updated_success_rate (fst (replay_loop ex job True (steps t) x))
           (t\<lparr>usage_count := usage_count t + 1\<rparr>) = Inr rate"
  shows "fst (replay_workflow ex now tid job e x) = Inl AttributeError"
    and "templates_file (fst (snd (replay_workflow ex now tid job e x))) = templates_file e"
proof -
  let ?c = "counted rate now t"
  let ?e1 = "e\<lparr>templates := AList.update tid ?c (templates e)\<rparr>"
  have "map_of (templates ?e1) tid = Some ?c" by (simp add: map_of_update_same)
  moreover from assms(2) have "\<not> is_datetime (created_date ?c)" by simp
  ultimately have "\<not> dates_intact (templates ?e1)" using dates_intact_lookup by blast
  from save_templates_not_intact[OF this]
  have raised: "fst (save_templates ?e1) = Inl AttributeError" .
  then show "fst (replay_workflow ex now tid job e x) = Inl AttributeError"
    by (simp add: replay_workflow_updated[OF assms(1,3)])
  from save_templates_raised_file[OF raised]
  show "templates_file (fst (snd (replay_workflow ex now tid job e x))) = templates_file e"
    by (simp add: replay_workflow_updated[OF assms(1,3)])
qed

text \<open>The engine after a recording through the module holds such a template.\<close>

lemma fold_record_step:
  "active_workflows e = [(w, acc)] \<Longrightarrow>
   fold (record_step w) sts e = e\<lparr>active_workflows := [(w, acc @ sts)]\<rparr>"
proof (induction sts arbitrary: e acc)
  case Nil
  then show ?case by simp
next
  case (Cons st sts)
  have "active_workflows (record_step w st e) = [(w, acc @ [st])]"
    by (simp add: record_step_def Cons.prems)
  from Cons.IH[OF this] show ?case
    by (simp add: record_step_def Cons.prems)
qed

lemma recorded_engine_templates:
  "templates (recorded_engine sts) = [(''r1'', recorded_template sts)]"
proof -
  let ?e1 = "snd (start_recording_workflow ''w1'' ''recorded'' new_WorkflowEngine)"
  have a: "active_workflows ?e1 = [(''w1'', [])]"
    by (simp add: start_recording_workflow_def new_WorkflowEngine_def)
  have t: "templates ?e1 = []"
    by (simp add: start_recording_workflow_def new_WorkflowEngine_def)
  show ?thesis
    unfolding recorded_engine_def fold_record_step[OF a]
    by (simp add: stop_recording_workflow_def t save_templates_def new_WorkflowTemplate_def
        recorded_template_def Let_def)
qed

lemma recorded_engine_lookup:
  "map_of (templates (recorded_engine sts)) ''r1'' = Some (recorded_template sts)"
  by (simp add: recorded_engine_templates)

lemma recorded_template_fields:
  "steps (recorded_template sts) = sts"
  "usage_count (recorded_template sts) = 0"
  "success_rate (recorded_template sts) = 0"
  "\<not> is_datetime (created_date (recorded_template sts))"
  by (simp_all add: recorded_template_def new_WorkflowTemplate_def is_datetime_def)

lemma recorded_template_updated:
  "updated_success_rate b ((recorded_template sts)\<lparr>usage_count := usage_count (recorded_template sts) + 1\<rparr>)
     = Inr (if b then 1 else 0)"
  by (rule updated_success_rate_first) (simp add: recorded_template_fields)

lemma recorded_engine_file:
  "templates_file (recorded_engine sts) = Some [recorded_template sts]"
proof -
  let ?e1 = "snd (start_recording_workflow ''w1'' ''recorded'' new_WorkflowEngine)"
  have a: "active_workflows ?e1 = [(''w1'', [])]"
    by (simp add: start_recording_workflow_def new_WorkflowEngine_def)
  have t: "templates ?e1 = []"
    by (simp add: start_recording_workflow_def new_WorkflowEngine_def)
  show ?thesis
    unfolding recorded_engine_def fold_record_step[OF a]
    by (simp add: stop_recording_workflow_def t save_templates_def new_WorkflowTemplate_def
        recorded_template_def Let_def)
qed

section \<open>Required steps (claim C2)\<close>

lemma sample_lookup:
  "map_of (templates (engine_with three_required_steps)) ''t1'' = Some three_required_steps"
  by (simp add: engine_with_def three_required_steps_def new_WorkflowTemplate_def)

lemma sample_intact: "dates_intact (templates (engine_with three_required_steps))"
  by (simp add: engine_with_def three_required_steps_def new_WorkflowTemplate_def
      dates_intact_def is_datetime_def)

lemma sample_loop:
  "replay_loop refusing_executor sample_job True (steps three_required_steps) 0
     = (False, [(new_WorkflowStep ''s1'', Done False)], 1)"
  by (simp add: three_required_steps_def refusing_executor_def new_WorkflowStep_def)

text \<open>
  The loop part of the claim holds for every input. Once the executor fails (returns
  \<open>False\<close> or raises) on a step with \<open>required = True\<close>, that call is the last one:
  the steps executed are the steps up to and including the failing one, the executor is
  left in the state those calls produce, one call for each, and the replay does not
  return \<open>True\<close>.
\<close>

lemma required_failure_ends_calls:
  assumes "map_of (templates e) tid = Some t"
      and "replay_workflow ex now tid job e x = (r, e', calls, x')"
      and "i < length calls" and "required (fst (calls ! i))" and "failed (snd (calls ! i))"
  shows "r \<noteq> Inr True
       \<and> length calls = Suc i
       \<and> map fst calls = take (Suc i) (steps t)
       \<and> x' = fold (\<lambda>st y. snd (ex st job y)) (take (Suc i) (steps t)) x"
proof -
  let ?L = "replay_loop ex job True (steps t) x"
  from assms(2) have r: "r = fst (replay_workflow ex now tid job e x)"
    and c: "calls = fst (snd (snd (replay_workflow ex now tid job e x)))"
    and x': "x' = snd (snd (snd (replay_workflow ex now tid job e x)))" by simp_all
  from c have calls: "calls = fst (snd ?L)" by (simp add: replay_workflow_calls[OF assms(1)])
  from x' have state: "x' = snd (snd ?L)" by (simp add: replay_workflow_state[OF assms(1)])
  from replay_loop_abort[of i ex job True "steps t" x] assms(3,4,5)
  have ab: "length calls = Suc i" "\<not> fst ?L" unfolding calls by simp_all
  from replay_workflow_result[OF assms(1), of ex now job x] ab(2)
  have "r \<noteq> Inr True" unfolding r by auto
  moreover have "map fst calls = take (Suc i) (steps t)"
    using replay_loop_calls_prefix[of ex job True "steps t" x] ab(1) unfolding calls by simp
  moreover have "x' = fold (\<lambda>st y. snd (ex st job y)) (take (Suc i) (steps t)) x"
    using replay_loop_state[of ex job True "steps t" x] ab(1) unfolding state calls by simp
  ultimately show ?thesis using ab(1) by blast
qed

lemma recorded_loop_refused:
  "replay_loop refusing_executor sample_job True
     (steps (recorded_template [new_WorkflowStep ''s1'', new_WorkflowStep ''s2'',
                                new_WorkflowStep ''s3''])) 0
     = (False, [(new_WorkflowStep ''s1'', Done False)], 1)"
  by (simp add: recorded_template_fields refusing_executor_def new_WorkflowStep_def)

text \<open>
  Claim C2 at a template made by recording. The engine has gone through
  \<open>start_recording_workflow\<close>, three times \<open>record_step\<close> with a required step and
  \<open>stop_recording_workflow\<close>; the executor refuses every step. The loop does what the
  claim says: the executor is called once, for the first step, and the two later steps
  are not executed. The replay does not return \<open>False\<close>, though: after the failure is
  counted in memory (\<open>usage_count = 1\<close>, \<open>success_rate = 0\<close>), \<open>save_templates\<close> finds
  the strings the recording left in the date attributes and raises
  \<open>AttributeError\<close>, and the file still holds the template as recorded.
\<close>

theorem required_failure_on_recorded_template:
  "required (new_WorkflowStep ''s1'')
   \<and> fst (snd (snd (replay_workflow refusing_executor sample_now ''r1'' sample_job
        (recorded_engine [new_WorkflowStep ''s1'', new_WorkflowStep ''s2'',
                          new_WorkflowStep ''s3'']) 0)))
       = [(new_WorkflowStep ''s1'', Done False)]
   \<and> snd (snd (snd (replay_workflow refusing_executor sample_now ''r1'' sample_job
        (recorded_engine [new_WorkflowStep ''s1'', new_WorkflowStep ''s2'',
                          new_WorkflowStep ''s3'']) 0))) = 1
   \<and> fst (replay_workflow refusing_executor sample_now ''r1'' sample_job
        (recorded_engine [new_WorkflowStep ''s1'', new_WorkflowStep ''s2'',
                          new_WorkflowStep ''s3'']) 0) = Inl AttributeError
   \<and> statistics_of (fst (snd (replay_workflow refusing_executor sample_now ''r1'' sample_job
        (recorded_engine [new_WorkflowStep ''s1'', new_WorkflowStep ''s2'',
                          new_WorkflowStep ''s3'']) 0))) ''r1'' = Some (1, 0)
   \<and> templates_file (fst (snd (replay_workflow refusing_executor sample_now ''r1'' sample_job
        (recorded_engine [new_WorkflowStep ''s1'', new_WorkflowStep ''s2'',
                          new_WorkflowStep ''s3'']) 0)))
       = Some [recorded_template [new_WorkflowStep ''s1'', new_WorkflowStep ''s2'',
                                  new_WorkflowStep ''s3'']]"
proof -
  let ?sts = "[new_WorkflowStep ''s1'', new_WorkflowStep ''s2'', new_WorkflowStep ''s3'']"
  let ?t = "recorded_template ?sts"
  have u: "updated_success_rate
             (fst (replay_loop refusing_executor sample_job True (steps ?t) 0))
             (?t\<lparr>usage_count := usage_count ?t + 1\<rparr>) = Inr 0"
    unfolding recorded_loop_refused by (simp add: recorded_template_updated)
  note look = recorded_engine_lookup[of ?sts]
  have "required (new_WorkflowStep ''s1'')" by (simp add: new_WorkflowStep_def)
  moreover have "fst (snd (snd (replay_workflow refusing_executor sample_now ''r1'' sample_job
        (recorded_engine ?sts) 0))) = [(new_WorkflowStep ''s1'', Done False)]"
    by (simp add: replay_workflow_calls[OF look] recorded_loop_refused)
  moreover have "snd (snd (snd (replay_workflow refusing_executor sample_now ''r1'' sample_job
        (recorded_engine ?sts) 0))) = 1"
    by (simp add: replay_workflow_state[OF look] recorded_loop_refused)
  moreover have "fst (replay_workflow refusing_executor sample_now ''r1'' sample_job
        (recorded_engine ?sts) 0) = Inl AttributeError"
    by (rule replay_of_saved_template_raises(1)[OF look recorded_template_fields(4) u])
  moreover have "statistics_of (fst (snd (replay_workflow refusing_executor sample_now ''r1''
        sample_job (recorded_engine ?sts) 0))) ''r1'' = Some (1, 0)"
    using replay_workflow_statistics[OF look u, of sample_now]
    by (simp add: recorded_template_fields)
  moreover have "templates_file (fst (snd (replay_workflow refusing_executor sample_now ''r1''
        sample_job (recorded_engine ?sts) 0))) = Some [?t]"
    using replay_of_saved_template_raises(2)[OF look recorded_template_fields(4) u, of sample_now]
    by (simp add: recorded_engine_file)
  ultimately show ?thesis by blast
qed

section \<open>Attempts and unknown templates (claims C1, C9)\<close>

lemma three_required_calls:
  "fst (snd (snd (replay_workflow refusing_executor sample_now ''t1'' sample_job
      (engine_with three_required_steps) 0))) = [(new_WorkflowStep ''s1'', Done False)]"
  by (simp add: replay_workflow_calls[OF sample_lookup] sample_loop)

lemma three_required_updated:
  "updated_success_rate b (three_required_steps\<lparr>usage_count := usage_count three_required_steps + 1\<rparr>)
     = Inr (if b then 1 else 0)"
  by (rule updated_success_rate_first)
     (simp add: three_required_steps_def new_WorkflowTemplate_def)

lemma three_required_executor_state:
  "snd (snd (snd (replay_workflow refusing_executor sample_now ''t1'' sample_job
      (engine_with three_required_steps) 0))) = 1"
  by (simp add: replay_workflow_state[OF sample_lookup] sample_loop)

text \<open>
  Claim C1, as amended. \<open>replay_workflow\<close> has no retry: \<open>max_retries\<close> and
  \<open>retry_count\<close> are not read, and a step is attempted once, not \<open>max_retries + 1\<close>
  times. The calls of a replay are the first steps of the template, in order; each
  logged answer is the answer of the executor in the state that one call for each
  earlier step has left; and the state of the executor after the replay is its state
  after exactly one call for each logged step. A replay that called the executor a
  second time on a failed step would leave the executor in another state.
\<close>

theorem replay_attempts_each_step_once:
  assumes "map_of (templates e) tid = Some t"
      and "replay_workflow ex now tid job e x = (r, e', calls, x')"
  shows "length calls \<le> length (steps t) \<and> map fst calls = take (length calls) (steps t)
       \<and> (\<forall>i < length calls.
             snd (calls ! i)
               = fst (ex (fst (calls ! i)) job
                        (fold (\<lambda>s y. snd (ex s job y)) (map fst (take i calls)) x)))
       \<and> x' = fold (\<lambda>s y. snd (ex s job y)) (map fst calls) x"
proof -
  let ?L = "replay_loop ex job True (steps t) x"
  from assms(2) have "calls = fst (snd (snd (replay_workflow ex now tid job e x)))"
    and "x' = snd (snd (snd (replay_workflow ex now tid job e x)))" by simp_all
  then have c: "calls = fst (snd ?L)" and s: "x' = snd (snd ?L)"
    by (simp_all add: replay_workflow_calls[OF assms(1)] replay_workflow_state[OF assms(1)])
  have len: "length calls \<le> length (steps t)"
    unfolding c by (rule replay_loop_length_calls)
  have pre: "map fst calls = take (length calls) (steps t)"
    unfolding c by (rule replay_loop_calls_prefix)
  have "snd (calls ! i)
          = fst (ex (fst (calls ! i)) job
                   (fold (\<lambda>s y. snd (ex s job y)) (map fst (take i calls)) x))"
    if i: "i < length calls" for i
  proof -
    from i have a: "calls ! i
        = (steps t ! i, fst (ex (steps t ! i) job
                               (fold (\<lambda>st y. snd (ex st job y)) (take i (steps t)) x)))"
      unfolding c by (rule replay_loop_answers)
    have "map fst (take i calls) = take i (map fst calls)" by (simp add: take_map)
    also have "\<dots> = take i (steps t)" using i by (simp add: pre min_def)
    finally show ?thesis by (simp add: a)
  qed
  moreover have "x' = fold (\<lambda>s y. snd (ex s job y)) (map fst calls) x"
    unfolding pre unfolding s c by (rule replay_loop_state)
  ultimately show ?thesis using len pre by blast
qed

theorem replay_attempts_each_step_once_witness:
  "map_of (templates (engine_with three_required_steps)) ''t1'' = Some three_required_steps
   \<and> max_retries (hd (steps three_required_steps)) = 3
   \<and> fst (snd (snd (replay_workflow refusing_executor sample_now ''t1'' sample_job
        (engine_with three_required_steps) 0))) = [(new_WorkflowStep ''s1'', Done False)]
   \<and> Done False = fst (refusing_executor (new_WorkflowStep ''s1'') sample_job 0)
   \<and> snd (snd (snd (replay_workflow refusing_executor sample_now ''t1'' sample_job
        (engine_with three_required_steps) 0)))
       = fold (\<lambda>s y. snd (refusing_executor s sample_job y)) [new_WorkflowStep ''s1''] 0
   \<and> fold (\<lambda>s y. snd (refusing_executor s sample_job y)) [new_WorkflowStep ''s1''] 0 = 1"
proof -
  let ?R = "replay_workflow refusing_executor sample_now ''t1'' sample_job
              (engine_with three_required_steps) 0"
  let ?calls = "fst (snd (snd ?R))"
  have "?R = (fst ?R, fst (snd ?R), fst (snd (snd ?R)), snd (snd (snd ?R)))" by simp
  from replay_attempts_each_step_once[OF sample_lookup this]
  have a: "\<forall>i < length ?calls.
             snd (?calls ! i)
               = fst (refusing_executor (fst (?calls ! i)) sample_job
                        (fold (\<lambda>s y. snd (refusing_executor s sample_job y))
                           (map fst (take i ?calls)) 0))"
    and b: "snd (snd (snd ?R))
          = fold (\<lambda>s y. snd (refusing_executor s sample_job y)) (map fst ?calls) 0"
    by blast+
  from a have "Done False = fst (refusing_executor (new_WorkflowStep ''s1'') sample_job 0)"
    unfolding three_required_calls by simp
  moreover from b have "snd (snd (snd ?R))
          = fold (\<lambda>s y. snd (refusing_executor s sample_job y)) [new_WorkflowStep ''s1''] 0"
    by (simp add: three_required_calls)
  moreover have "max_retries (hd (steps three_required_steps)) = 3"
    by (simp add: three_required_steps_def new_WorkflowStep_def)
  moreover have "fold (\<lambda>s y. snd (refusing_executor s sample_job y)) [new_WorkflowStep ''s1''] 0
                   = (1::nat)"
    by (simp add: refusing_executor_def)
  ultimately show ?thesis using sample_lookup three_required_calls by simp
qed

text \<open>
  Claim C1 as stated fails: the first step of the sample template has \<open>max_retries = 3\<close>
  and the executor refuses it, yet the executor is called once in the whole replay, not
  four times.
\<close>

theorem no_retry_counterexample:
  "max_retries (new_WorkflowStep ''s1'') + 1 = 4
   \<and> failed (snd (hd (fst (snd (snd (replay_workflow refusing_executor sample_now ''t1''
         sample_job (engine_with three_required_steps) 0))))))
   \<and> snd (snd (snd (replay_workflow refusing_executor sample_now ''t1'' sample_job
         (engine_with three_required_steps) 0))) = 1"
  by (simp add: three_required_calls three_required_executor_state new_WorkflowStep_def)

text \<open>
  Claim C9, as amended. For an identifier that is not a key of \<open>templates\<close>,
  \<open>replay_workflow\<close> returns \<open>False\<close>, the value it also returns for a failed replay,
  and changes nothing: the engine (templates and file) and the executor's state are as
  before and the executor is not called.
\<close>

theorem replay_unknown_template:
  assumes "map_of (templates e) tid = None"
  shows "replay_workflow ex now tid job e x = (Inr False, e, [], x)"
  using assms by (simp add: replay_workflow_def)

theorem replay_unknown_template_witness:
  "map_of (templates (engine_with three_required_steps)) ''missing'' = None
   \<and> replay_workflow refusing_executor sample_now ''missing'' sample_job
        (engine_with three_required_steps) 0
      = (Inr False, engine_with three_required_steps, [], 0)"
proof -
  have n: "map_of (templates (engine_with three_required_steps)) ''missing'' = None"
    by (simp add: engine_with_def three_required_steps_def new_WorkflowTemplate_def)
  from replay_unknown_template[OF n] n show ?thesis by simp
qed

text \<open>
  Claim C9 as stated fails: the result for the unknown identifier is the result of the
  failed replay of a stored template.
\<close>

theorem template_not_found_counterexample:
  "map_of (templates (engine_with three_required_steps)) ''missing'' = None
   \<and> map_of (templates (engine_with three_required_steps)) ''t1'' = Some three_required_steps
   \<and> fst (replay_workflow refusing_executor sample_now ''missing'' sample_job
            (engine_with three_required_steps) 0)
     = fst (replay_workflow refusing_executor sample_now ''t1'' sample_job
            (engine_with three_required_steps) 0)"
proof -
  have n: "map_of (templates (engine_with three_required_steps)) ''missing'' = None"
    by (simp add: engine_with_def three_required_steps_def new_WorkflowTemplate_def)
  have "fst (replay_workflow refusing_executor sample_now ''t1'' sample_job
            (engine_with three_required_steps) 0) = Inr False"
    by (simp add: replay_workflow_intact[OF sample_lookup _ sample_intact]
        sample_loop three_required_updated)
  with n sample_lookup show ?thesis by (simp add: replay_workflow_def)
qed

section \<open>Templates without steps (claim C10)\<close>

text \<open>
  The part of the claim that concerns the loop and the statistics holds for every stored
  template without steps: the executor is not called and the replay does not return
  \<open>False\<close>; when the update for a success yields a rate (no operation overflows), the
  template is left with one more use and that rate, and the replay returns \<open>True\<close> on
  a store that still holds \<open>datetime\<close> objects.
\<close>

lemma replay_of_empty_template:
  assumes "map_of (templates e) tid = Some t" and "steps t = []"
      and "replay_workflow ex now tid job e x = (r, e', calls, x')"
  shows "calls = [] \<and> x' = x \<and> r \<noteq> Inr False
       \<and> (\<forall>rate. updated_success_rate True (t\<lparr>usage_count := usage_count t + 1\<rparr>) = Inr rate
             \<longrightarrow> statistics_of e' tid = Some (usage_count t + 1, rate)
               \<and> (dates_intact (templates e) \<longrightarrow> r = Inr True))"
proof -
  have loop: "replay_loop ex job True (steps t) x = (True, [], x)" by (simp add: assms(2))
  from assms(3) have r: "r = fst (replay_workflow ex now tid job e x)"
    and e': "e' = fst (snd (replay_workflow ex now tid job e x))"
    and c: "calls = fst (snd (snd (replay_workflow ex now tid job e x)))"
    and x': "x' = snd (snd (snd (replay_workflow ex now tid job e x)))" by simp_all
  have "calls = []" unfolding c by (simp add: replay_workflow_calls[OF assms(1)] loop)
  moreover have "x' = x" unfolding x' by (simp add: replay_workflow_state[OF assms(1)] loop)
  moreover have "r \<noteq> Inr False"
    using replay_workflow_result[OF assms(1), of ex now job x] unfolding r by (auto simp: loop)
  moreover have "statistics_of e' tid = Some (usage_count t + 1, rate)
               \<and> (dates_intact (templates e) \<longrightarrow> r = Inr True)"
    if "updated_success_rate True (t\<lparr>usage_count := usage_count t + 1\<rparr>) = Inr rate" for rate
  proof -
    from that have u: "updated_success_rate (fst (replay_loop ex job True (steps t) x))
                         (t\<lparr>usage_count := usage_count t + 1\<rparr>) = Inr rate"
      by (simp add: loop)
    have "statistics_of e' tid = Some (usage_count t + 1, rate)"
      unfolding e' by (rule replay_workflow_statistics[OF assms(1) u])
    moreover have "r = Inr True" if "dates_intact (templates e)"
      unfolding r by (simp add: replay_workflow_intact[OF assms(1) u that] loop)
    ultimately show ?thesis by blast
  qed
  ultimately show ?thesis by blast
qed

text \<open>
  Claim C10 at a template made by recording. The engine has gone through
  \<open>start_recording_workflow\<close> and \<open>stop_recording_workflow\<close> with no step recorded in
  between, so the stored template has an empty step list. Its replay calls the executor
  not at all and counts a success in memory (\<open>usage_count = 1\<close>, \<open>success_rate = 1\<close>),
  but it does not return \<open>True\<close>: \<open>save_templates\<close> finds the strings the recording
  left in the date attributes and raises \<open>AttributeError\<close>, and the statistics in the
  file stay as recorded (\<open>usage_count = 0\<close>).
\<close>

theorem empty_recorded_template_replay_raises:
  "steps (recorded_template []) = []
   \<and> map_of (templates (recorded_engine [])) ''r1'' = Some (recorded_template [])
   \<and> fst (replay_workflow accepting_executor sample_now ''r1'' sample_job
            (recorded_engine []) 0) = Inl AttributeError
   \<and> fst (snd (snd (replay_workflow accepting_executor sample_now ''r1'' sample_job
            (recorded_engine []) 0))) = []
   \<and> statistics_of (fst (snd (replay_workflow accepting_executor sample_now ''r1'' sample_job
            (recorded_engine []) 0))) ''r1'' = Some (1, 1)
   \<and> map_option (map usage_count)
        (templates_file (fst (snd (replay_workflow accepting_executor sample_now ''r1''
            sample_job (recorded_engine []) 0)))) = Some [0]"
proof -
  let ?t = "recorded_template []"
  have loop: "replay_loop accepting_executor sample_job True (steps ?t) 0 = (True, [], 0)"
    by (simp add: recorded_template_fields)
  have u: "updated_success_rate
             (fst (replay_loop accepting_executor sample_job True (steps ?t) 0))
             (?t\<lparr>usage_count := usage_count ?t + 1\<rparr>) = Inr 1"
    unfolding loop by (simp add: recorded_template_updated)
  note look = recorded_engine_lookup[of "[]"]
  have "fst (replay_workflow accepting_executor sample_now ''r1'' sample_job
            (recorded_engine []) 0) = Inl AttributeError"
    by (rule replay_of_saved_template_raises(1)[OF look recorded_template_fields(4) u])
  moreover have "fst (snd (snd (replay_workflow accepting_executor sample_now ''r1''
            sample_job (recorded_engine []) 0))) = []"
    by (simp add: replay_workflow_calls[OF look] loop)
  moreover have "statistics_of (fst (snd (replay_workflow accepting_executor sample_now ''r1''
            sample_job (recorded_engine []) 0))) ''r1'' = Some (1, 1)"
    using replay_workflow_statistics[OF look u, of sample_now]
    by (simp add: recorded_template_fields)
  moreover have "map_option (map usage_count)
        (templates_file (fst (snd (replay_workflow accepting_executor sample_now ''r1''
            sample_job (recorded_engine []) 0)))) = Some [0]"
    using replay_of_saved_template_raises(2)[OF look recorded_template_fields(4) u, of sample_now]
    by (simp add: recorded_engine_file recorded_template_fields)
  ultimately show ?thesis using look by (simp add: recorded_template_fields)
qed

section \<open>Steps that are not required (claim C3)\<close>

text \<open>
  When no required step fails, the loop runs to the end: every step of the template is
  invoked, also those after a failed step that is not required.
\<close>

lemma replay_runs_every_step:
  assumes "map_of (templates e) tid = Some t"
      and "replay_workflow ex now tid job e x = (r, e', calls, x')"
      and "\<forall>c \<in> set calls. \<not> (required (fst c) \<and> failed (snd c))"
  shows "map fst calls = steps t"
proof -
  from assms(2) have "calls = fst (snd (snd (replay_workflow ex now tid job e x)))" by simp
  then have c: "calls = fst (snd (replay_loop ex job True (steps t) x))"
    by (simp add: replay_workflow_calls[OF assms(1)])
  from assms(3) have "length calls = length (steps t)"
    unfolding c by (rule replay_loop_complete)
  with replay_loop_calls_prefix[of ex job True "steps t" x] show ?thesis
    unfolding c by simp
qed

lemma optional_lookup:
  "map_of (templates (engine_with one_optional_step)) ''t2'' = Some one_optional_step"
  by (simp add: engine_with_def one_optional_step_def new_WorkflowTemplate_def)

lemma optional_intact: "dates_intact (templates (engine_with one_optional_step))"
  by (simp add: engine_with_def one_optional_step_def new_WorkflowTemplate_def
      dates_intact_def is_datetime_def)

lemma optional_updated:
  "updated_success_rate b (one_optional_step\<lparr>usage_count := usage_count one_optional_step + 1\<rparr>)
     = Inr (if b then 1 else 0)"
  by (rule updated_success_rate_first)
     (simp add: one_optional_step_def new_WorkflowTemplate_def)

lemma optional_loop_refused:
  "replay_loop refusing_executor sample_job True (steps one_optional_step) 0
     = (False, [((new_WorkflowStep ''s1'')\<lparr>required := False\<rparr>, Done False)], 1)"
  by (simp add: one_optional_step_def refusing_executor_def new_WorkflowStep_def)

lemma optional_loop_thrown:
  "replay_loop throwing_executor sample_job True (steps one_optional_step) 0
     = (True, [((new_WorkflowStep ''s1'')\<lparr>required := False\<rparr>, Throws)], 1)"
  by (simp add: one_optional_step_def throwing_executor_def new_WorkflowStep_def)

text \<open>
  Claim C3 at a template whose only step has \<open>required = False\<close>. When the executor
  returns \<open>False\<close> for it, no required step has failed and the step is the last one, yet
  \<open>replay_workflow\<close> returns \<open>False\<close>: \<open>success\<close> holds the answer of the last call.
  When the executor raises on the same step instead, the \<open>except\<close> branch leaves
  \<open>success\<close> alone and the replay returns \<open>True\<close>.
\<close>

theorem optional_last_step_decides_result:
  "map (required \<circ> fst) (fst (snd (snd (replay_workflow refusing_executor sample_now ''t2''
        sample_job (engine_with one_optional_step) 0)))) = [False]
   \<and> fst (replay_workflow refusing_executor sample_now ''t2'' sample_job
            (engine_with one_optional_step) 0) = Inr False
   \<and> fst (replay_workflow throwing_executor sample_now ''t2'' sample_job
            (engine_with one_optional_step) 0) = Inr True"
  by (simp add: replay_workflow_intact[OF optional_lookup _ optional_intact]
      replay_workflow_calls[OF optional_lookup] optional_loop_refused optional_loop_thrown
      optional_updated)

section \<open>Statistics after successive replays (claim C4)\<close>





subsection \<open>Replays of the sample template\<close>











subsection \<open>Twenty-three replays\<close>
















section \<open>Recording (claim C8)\<close>

lemma length_update_new:
  "map_of al k = None \<Longrightarrow> length (AList.update k v al) = Suc (length al)"
  by (induction al) (auto split: if_splits)

lemma map_of_update_other:
  "k' \<noteq> k \<Longrightarrow> map_of (AList.update k v al) k' = map_of al k'"
  by (simp add: update_conv')

text \<open>
  Claim C8, as amended. \<open>start_recording_workflow\<close> has no failure: in every engine,
  with or without open drafts, it returns the new identifier, stores an empty draft under
  it, sets \<open>recording_mode\<close> and leaves every other draft, the templates and the file as
  they are; under a fresh identifier the number of open drafts grows by one.
\<close>

theorem start_recording_never_fails:
  "fst (start_recording_workflow uuid nm e) = uuid
   \<and> map_of (active_workflows (snd (start_recording_workflow uuid nm e))) uuid = Some []
   \<and> recording_mode (snd (start_recording_workflow uuid nm e))
   \<and> (\<forall>w. w \<noteq> uuid \<longrightarrow>
         map_of (active_workflows (snd (start_recording_workflow uuid nm e))) w
           = map_of (active_workflows e) w)
   \<and> (map_of (active_workflows e) uuid = None \<longrightarrow>
         length (active_workflows (snd (start_recording_workflow uuid nm e)))
           = Suc (length (active_workflows e)))
   \<and> templates (snd (start_recording_workflow uuid nm e)) = templates e
   \<and> templates_file (snd (start_recording_workflow uuid nm e)) = templates_file e"
  by (simp add: start_recording_workflow_def map_of_update_same map_of_update_other
      length_update_new)

lemma recording_engine_open:
  "recording_mode recording_engine" "active_workflows recording_engine = [(''w1'', [])]"
  by (simp_all add: recording_engine_def start_recording_workflow_def engine_with_def)

theorem start_recording_never_fails_witness:
  "map_of (active_workflows recording_engine) ''w1'' = Some []
   \<and> map_of (active_workflows recording_engine) ''w2'' = None
   \<and> fst (start_recording_workflow ''w2'' ''second'' recording_engine) = ''w2''
   \<and> map_of (active_workflows (snd (start_recording_workflow ''w2'' ''second'' recording_engine)))
        ''w1'' = Some []
   \<and> map_of (active_workflows (snd (start_recording_workflow ''w2'' ''second'' recording_engine)))
        ''w2'' = Some []
   \<and> length (active_workflows (snd (start_recording_workflow ''w2'' ''second'' recording_engine)))
        = 2"
proof -
  have a: "map_of (active_workflows recording_engine) ''w1'' = Some []"
    and b: "map_of (active_workflows recording_engine) ''w2'' = None"
    by (simp_all add: recording_engine_open)
  have c: "''w1'' \<noteq> ''w2''" by simp
  from start_recording_never_fails[of "''w2''" "''second''" recording_engine] a b c
  show ?thesis by (simp add: recording_engine_open)
qed

text \<open>
  Claim C8 as stated fails: with the draft \<open>w1\<close> open and \<open>recording_mode\<close> set, a
  second \<open>start_recording_workflow\<close> returns its identifier and a second draft exists.
\<close>

theorem already_recording_counterexample:
  "recording_mode recording_engine
   \<and> active_workflows recording_engine = [(''w1'', [])]
   \<and> fst (start_recording_workflow ''w2'' ''second'' recording_engine) = ''w2''
   \<and> active_workflows (snd (start_recording_workflow ''w2'' ''second'' recording_engine))
        = [(''w1'', []), (''w2'', [])]"
  by (simp add: recording_engine_open start_recording_workflow_def)

section \<open>The daily limit (claim C7)\<close>

lemma applications_today_summary:
  "applications_today (get_applications_summary now tr)
     = int (length (applications_on (date_part now) tr))"
  by (simp add: get_applications_summary_def applications_on_def Let_def)

lemma update_new_appends:
  "map_of al k = None \<Longrightarrow> AList.update k v al = al @ [(k, v)]"
  by (induction al) (auto split: if_splits)

lemma record_application_today:
  assumes "map_of (applications tr) uuid = None"
  shows "length (applications_on (date_part now)
                   (snd (record_application uuid now job wid tr)))
           = Suc (length (applications_on (date_part now) tr))"
proof -
  have "AList.update uuid v (applications tr) = applications tr @ [(uuid, v)]" for v
    using assms by (rule update_new_appends)
  then show ?thesis
    by (simp add: record_application_def save_applications_def applications_on_def Let_def
        new_ApplicationRecord_def)
qed

text \<open>
  Claim C7. \<open>can_apply_today\<close> is true exactly when the number of application records
  dated on the current day is below \<open>max_applications_per_day\<close>: true at one record less
  than the limit, false at the limit. The number is the one the summary reports as
  \<open>applications_today\<close>.
\<close>

theorem can_apply_today_below_limit:
  "(can_apply_today now tr
      \<longleftrightarrow> int (length (applications_on (date_part now) tr)) < max_applications_per_day tr)
   \<and> (int (length (applications_on (date_part now) tr)) = max_applications_per_day tr - 1
        \<longrightarrow> can_apply_today now tr)
   \<and> (int (length (applications_on (date_part now) tr)) = max_applications_per_day tr
        \<longrightarrow> \<not> can_apply_today now tr)
   \<and> applications_today (get_applications_summary now tr)
        = int (length (applications_on (date_part now) tr))"
  by (simp add: can_apply_today_def applications_on_def Let_def applications_today_summary)

lemma tracker_one_today_count:
  "length (applications_on (date_part sample_now) tracker_one_today) = 1"
  "max_applications_per_day tracker_one_today = 2"
  by (simp_all add: tracker_one_today_def record_application_def save_applications_def
      applications_on_def new_ApplicationTracker_def new_ApplicationRecord_def
      sample_yesterday_def sample_now_def Let_def)

lemma tracker_two_today_count:
  "length (applications_on (date_part sample_now) tracker_two_today) = 2"
  "max_applications_per_day tracker_two_today = 2"
proof -
  have "map_of (applications tracker_one_today) ''a3'' = None"
    by (simp add: tracker_one_today_def record_application_def save_applications_def
        new_ApplicationTracker_def Let_def)
  from record_application_today[OF this, of sample_now sample_job "''t1''"]
  show "length (applications_on (date_part sample_now) tracker_two_today) = 2"
    by (simp add: tracker_two_today_def tracker_one_today_count)
  show "max_applications_per_day tracker_two_today = 2"
    by (simp add: tracker_two_today_def record_application_def save_applications_def Let_def
        tracker_one_today_count)
qed

theorem can_apply_today_below_limit_witness:
  "int (length (applications_on (date_part sample_now) tracker_one_today))
     = max_applications_per_day tracker_one_today - 1
   \<and> can_apply_today sample_now tracker_one_today
   \<and> int (length (applications_on (date_part sample_now) tracker_two_today))
     = max_applications_per_day tracker_two_today
   \<and> \<not> can_apply_today sample_now tracker_two_today"
  using can_apply_today_below_limit[of sample_now tracker_one_today]
        can_apply_today_below_limit[of sample_now tracker_two_today]
  by (simp add: tracker_one_today_count tracker_two_today_count)

section \<open>The matcher (claim C6)\<close>

lemma template_matches_iff:
  "template_matches job t \<longleftrightarrow>
     (company_pattern t \<noteq> [] \<and> str_in (lower (company_pattern t)) (lower (company job)))
     \<or> (job_type_pattern t \<noteq> [] \<and> str_in (lower (job_type_pattern t)) (lower (job_type job)))
     \<or> (\<exists>tag \<in> set (tags t). str_in (lower tag) (lower (title job)))"
  by (auto simp: template_matches_def list_ex_iff)

lemma sort_reverse_set: "set (sort_reverse key xs) = set xs"
  by (simp add: sort_reverse_def)

lemma sort_reverse_descending:
  "sorted_wrt (\<lambda>a b. key b \<le> key a) (sort_reverse key xs)"
proof -
  have "sorted (map (\<lambda>x. - key x) (sort_key (\<lambda>x. - key x) xs))" by (rule sorted_sort_key)
  then show ?thesis by (simp add: sort_reverse_def sorted_map)
qed

lemma sort_reverse_stable:
  "filter (\<lambda>x. key x = r) (sort_reverse key xs) = filter (\<lambda>x. key x = r) xs"
  using sort_key_stable[of "\<lambda>x. - key x" "- r" xs] by (simp add: sort_reverse_def)

lemma str_in_iff: "str_in a b \<longleftrightarrow> (\<exists>before after. b = before @ a @ after)"
  by (simp add: str_in_def sublist_def)

text \<open>
  \<open>lower\<close> keeps the length and folds the accented capitals as well as \<open>A\<close> to
  \<open>Z\<close>; the multiplication sign and the sharp s stay.
\<close>

lemma length_lower: "length (lower s) = length s"
  by (simp add: lower_def)

lemma lower_latin1:
  "lower [CHR ''A'', CHR 0xC0, CHR 0xD7, CHR 0xDE, CHR 0xDF, CHR ''z'']
     = [CHR ''a'', CHR 0xE0, CHR 0xD7, CHR 0xFE, CHR 0xDF, CHR ''z'']"
  by code_simp

text \<open>
  Claim C6, as amended. \<open>find_matching_templates\<close> is a function of the job and the
  stored templates and changes neither. Its result contains a stored template exactly when
  one of three rules fires: the company pattern is not empty and is a case-insensitive
  substring of the job's company, or the job type pattern is not empty and is a
  case-insensitive substring of the job's job type, or some tag is a case-insensitive
  substring of the job's title. The result is in descending order of \<open>success_rate\<close>,
  and templates of equal rate keep the order in which the store holds them.
\<close>

theorem find_matching_templates_rules:
  "(t \<in> set (find_matching_templates job e) \<longleftrightarrow>
      t \<in> snd ` set (templates e)
      \<and> ((company_pattern t \<noteq> []
            \<and> str_in (lower (company_pattern t)) (lower (company job)))
         \<or> (job_type_pattern t \<noteq> []
            \<and> str_in (lower (job_type_pattern t)) (lower (job_type job)))
         \<or> (\<exists>tag \<in> set (tags t). str_in (lower tag) (lower (title job)))))
   \<and> sorted_wrt (\<lambda>a b. success_rate b \<le> success_rate a) (find_matching_templates job e)
   \<and> (\<forall>r. filter (\<lambda>t. success_rate t = r) (find_matching_templates job e)
          = filter (\<lambda>t. success_rate t = r)
              (filter (template_matches job) (map snd (templates e))))"
proof -
  have "t \<in> set (find_matching_templates job e) \<longleftrightarrow>
          t \<in> snd ` set (templates e) \<and> template_matches job t"
    by (auto simp: find_matching_templates_def sort_reverse_set)
  then show ?thesis
    unfolding template_matches_iff[symmetric]
    by (simp add: find_matching_templates_def sort_reverse_descending sort_reverse_stable)
qed

lemma matcher_engine_result:
  "find_matching_templates sample_job matcher_engine = [by_tag, by_company, by_company_too]"
  by code_simp

lemma matcher_engine_stored:
  "map snd (templates matcher_engine) = [by_company, empty_template, by_tag, by_company_too]"
  by (simp add: matcher_engine_def)

theorem find_matching_templates_rules_witness:
  "by_company \<in> snd ` set (templates matcher_engine)
   \<and> company_pattern by_company \<noteq> []
   \<and> str_in (lower (company_pattern by_company)) (lower (company sample_job))
   \<and> by_company \<in> set (find_matching_templates sample_job matcher_engine)
   \<and> find_matching_templates sample_job matcher_engine = [by_tag, by_company, by_company_too]
   \<and> success_rate by_company = success_rate by_company_too"
proof -
  have a: "by_company \<in> snd ` set (templates matcher_engine)"
    by (simp add: matcher_engine_def)
  have b: "company_pattern by_company \<noteq> []"
    by (simp add: by_company_def)
  have c: "str_in (lower (company_pattern by_company)) (lower (company sample_job))"
    by code_simp
  have d: "success_rate by_company = success_rate by_company_too"
    by (simp add: by_company_def by_company_too_def)
  from find_matching_templates_rules[of by_company sample_job matcher_engine] a b c
  have "by_company \<in> set (find_matching_templates sample_job matcher_engine)" by blast
  with a b c d matcher_engine_result show ?thesis by simp
qed

text \<open>
  Claim C6 as stated fails: the empty string is a substring of every string, so the
  rules in the claim's words fire for a stored template with the default patterns and no
  tags, and the result does not contain it.
\<close>

theorem empty_pattern_counterexample:
  "empty_template \<in> snd ` set (templates matcher_engine)
   \<and> spec_rule_fires sample_job empty_template
   \<and> empty_template \<notin> set (find_matching_templates sample_job matcher_engine)"
proof -
  have a: "empty_template \<in> snd ` set (templates matcher_engine)"
    by (simp add: matcher_engine_def)
  have b: "spec_rule_fires sample_job empty_template"
    by (simp add: spec_rule_fires_def empty_template_def new_WorkflowTemplate_def lower_def
        str_in_def)
  have c: "empty_template \<noteq> by_tag" "empty_template \<noteq> by_company"
    "empty_template \<noteq> by_company_too"
    by (simp_all add: empty_template_def by_tag_def by_company_def by_company_too_def
        new_WorkflowTemplate_def)
  from a b c show ?thesis by (simp add: matcher_engine_result)
qed

section \<open>A job without a matching template (claim C5)\<close>

text \<open>
  The recording path never touches the tracker: whatever it returns or raises, the
  application records are those from before.
\<close>

lemma manual_application_keeps_tracker:
  "application_tracker (snd (manual_application_with_recording out job a))
     = application_tracker a"
  by (simp add: manual_application_with_recording_def Let_def
      split: prod.splits sum.splits)

lemma apply_to_job_no_match_keeps_tracker:
  assumes "find_matching_templates job (workflow_engine a) = []"
  shows "application_tracker (fst (snd (apply_to_job ex out job a x))) = application_tracker a"
  using manual_application_keeps_tracker[of out job a]
  by (cases "manual_application_with_recording out job a") (simp add: apply_to_job_def assms)


text \<open>
  What \<open>save_templates\<close> leaves behind: after a save that did not raise, every stored
  template holds ISO strings, so the next save raises. The recording path saves twice
  (in \<open>stop_recording_workflow\<close> and again after setting the tags), so it raises on
  every input.
\<close>

lemma convert_dates_lookup_id:
  "map_of ts k = Some t \<Longrightarrow>
   \<exists>t'. map_of (snd (convert_dates ts)) k = Some t' \<and> template_id t' = template_id t"
proof (induction ts)
  case Nil then show ?case by simp
next
  case (Cons kt ts)
  obtain k0 t0 where kt: "kt = (k0, t0)" by (cases kt)
  show ?case
  proof (cases "k0 = k")
    case True
    with Cons.prems kt have "t0 = t" by simp
    with True show ?thesis unfolding kt
      by (cases "created_date t"; cases "last_updated t"; cases "convert_dates ts") simp_all
  next
    case False
    with Cons.prems kt have m: "map_of ts k = Some t" by simp
    from Cons.IH[OF m] m False show ?thesis unfolding kt
      by (cases "created_date t0"; cases "last_updated t0"; cases "convert_dates ts") simp_all
  qed
qed

lemma convert_dates_converted:
  "fst (convert_dates ts) = None \<Longrightarrow> map_of (snd (convert_dates ts)) k = Some t' \<Longrightarrow>
   \<not> is_datetime (created_date t')"
proof (induction ts)
  case Nil then show ?case by simp
next
  case (Cons kt ts)
  obtain k0 t0 where kt: "kt = (k0, t0)" by (cases kt)
  obtain err rest where cd: "convert_dates ts = (err, rest)" by (cases "convert_dates ts")
  from Cons.prems(1) obtain c u where cu: "created_date t0 = AsDatetime c"
    "last_updated t0 = AsDatetime u"
    unfolding kt by (cases "created_date t0"; cases "last_updated t0") (simp_all add: cd)
  from Cons.prems(1) have n: "fst (convert_dates ts) = None"
    unfolding kt by (simp add: cu cd)
  show ?case
  proof (cases "k0 = k")
    case True
    with Cons.prems(2) have "t' = t0\<lparr>created_date := AsIsoString c, last_updated := AsIsoString u\<rparr>"
      unfolding kt by (simp add: cu cd)
    then show ?thesis by (simp add: is_datetime_def)
  next
    case False
    with Cons.prems(2) have "map_of (snd (convert_dates ts)) k = Some t'"
      unfolding kt by (simp add: cu cd)
    from Cons.IH[OF n this] show ?thesis .
  qed
qed

lemma record_step_keeps_key:
  "map_of (active_workflows e) wid \<noteq> None \<Longrightarrow>
   map_of (active_workflows (record_step wid step e)) wid \<noteq> None"
  by (auto simp: record_step_def map_of_update_same)

lemma record_steps_keep_key:
  "map_of (active_workflows e) wid \<noteq> None \<Longrightarrow>
   map_of (active_workflows (fold (record_step wid) sts e)) wid \<noteq> None"
proof (induction sts arbitrary: e)
  case Nil
  then show ?case by simp
next
  case (Cons st sts)
  from record_step_keeps_key[OF Cons.prems]
  have "map_of (active_workflows (record_step wid st e)) wid \<noteq> None" .
  from Cons.IH[OF this] show ?case by simp
qed


lemma save_templates_Inr:
  "fst (save_templates e) = Inr u \<Longrightarrow> fst (convert_dates (templates e)) = None"
  by (cases "convert_dates (templates e)"; cases "fst (convert_dates (templates e))")
     (simp_all add: save_templates_def)

lemma save_templates_error:
  "fst (save_templates e) = Inl err \<Longrightarrow> err = AttributeError"
  using save_templates_intact[of e] save_templates_not_intact[of e] by (cases "dates_intact (templates e)") simp_all

lemma stop_recording_workflow_result:
  assumes "map_of (active_workflows e) wid = Some recorded"
  shows "fst (stop_recording_workflow uuid now wid nm d e) = Inl AttributeError
       \<or> (\<exists>stored. fst (stop_recording_workflow uuid now wid nm d e) = Inr stored
             \<and> template_id stored = uuid \<and> \<not> is_datetime (created_date stored))"
proof -
  let ?template = "(new_WorkflowTemplate uuid now)
                     \<lparr>name := nm, template_description := d, steps := recorded\<rparr>"
  let ?e1 = "e\<lparr>templates := AList.update uuid ?template (templates e),
               active_workflows := AList.delete wid (active_workflows e),
               recording_mode := False\<rparr>"
  obtain r e2 where sv: "save_templates ?e1 = (r, e2)" by (cases "save_templates ?e1")
  have look: "map_of (templates ?e1) uuid = Some ?template" by (simp add: map_of_update_same)
  from convert_dates_lookup_id[OF look]
  obtain stored where st: "map_of (snd (convert_dates (templates ?e1))) uuid = Some stored"
    and id: "template_id stored = uuid"
    by (auto simp: new_WorkflowTemplate_def)
  have te2: "templates e2 = snd (convert_dates (templates ?e1))"
    using templates_save_templates[of ?e1] sv by simp
  show ?thesis
  proof (cases r)
    case (Inl err)
    with sv save_templates_error[of ?e1 err] have "r = Inl AttributeError" by simp
    with sv show ?thesis
      by (simp add: stop_recording_workflow_def assms Let_def)
  next
    case (Inr u)
    with sv save_templates_Inr[of ?e1 u] have "fst (convert_dates (templates ?e1)) = None"
      by simp
    from convert_dates_converted[OF this st] have nd: "\<not> is_datetime (created_date stored)" .
    from sv Inr st te2 have "fst (stop_recording_workflow uuid now wid nm d e) = Inr stored"
      by (simp add: stop_recording_workflow_def assms Let_def)
    with id nd show ?thesis by blast
  qed
qed

lemma manual_application_raises:
  "fst (manual_application_with_recording out job a) = Inl AttributeError"
proof -
  let ?name = "company job @ ''_'' @ job_type job @ ''_application''"
  let ?e1 = "snd (start_recording_workflow (workflow_uuid out) ?name (workflow_engine a))"
  let ?e2 = "fold (record_step (workflow_uuid out)) (simulated_steps out) ?e1"
  let ?stop = "stop_recording_workflow (template_uuid out) (clock out) (workflow_uuid out) ?name
                 (''Workflow for '' @ company job @ '' '' @ job_type job @ '' positions'') ?e2"
  have "map_of (active_workflows ?e1) (workflow_uuid out) \<noteq> None"
    by (simp add: start_recording_workflow_def map_of_update_same)
  from record_steps_keep_key[OF this]
  obtain recorded where "map_of (active_workflows ?e2) (workflow_uuid out) = Some recorded"
    by blast
  from stop_recording_workflow_result[OF this]
  consider (raised) "fst ?stop = Inl AttributeError"
    | (stored) stored where "fst ?stop = Inr stored" "template_id stored = template_uuid out"
        "\<not> is_datetime (created_date stored)"
    by blast
  then show ?thesis
  proof cases
    case raised
    then show ?thesis
      by (cases ?stop) (simp add: manual_application_with_recording_def Let_def
          start_recording_workflow_def)
  next
    case stored
    let ?t' = "stored\<lparr>tags := [lower (job_type job), lower (company job)],
                      company_pattern := company job, job_type_pattern := job_type job\<rparr>"
    let ?e4 = "(snd ?stop)\<lparr>templates :=
                 AList.update (template_id stored) ?t' (templates (snd ?stop))\<rparr>"
    have "map_of (templates ?e4) (template_uuid out) = Some ?t'"
      by (simp add: stored(2) map_of_update_same)
    moreover from stored(3) have "\<not> is_datetime (created_date ?t')" by simp
    ultimately have "\<not> dates_intact (templates ?e4)"
      using dates_intact_lookup by blast
    from save_templates_not_intact[OF this] stored(1) show ?thesis
      by (cases ?stop; cases "save_templates ?e4")
         (simp add: manual_application_with_recording_def Let_def start_recording_workflow_def)
  qed
qed

lemma apply_to_job_no_match_raises:
  assumes "find_matching_templates job (workflow_engine a) = []"
  shows "fst (apply_to_job ex out job a x) = Inl AttributeError"
  using manual_application_raises[of out job a]
  by (cases "manual_application_with_recording out job a") (simp add: apply_to_job_def assms)

text \<open>
  Claim C5 at a new automation and the sample job. No template matches, so
  \<open>apply_to_job\<close> takes the recording path: it records the three simulated steps and
  stores a template whose tags are the job type and the company in lower case. It never
  calls \<open>record_application\<close>: the tracker has no record afterwards, unlike after a
  successful replay. The call does not return \<open>True\<close> either: the second
  \<open>save_templates\<close> finds the ISO strings the first one left in the template and raises
  \<open>AttributeError\<close>.
\<close>

theorem manual_run_is_not_recorded:
  "find_matching_templates sample_job (workflow_engine fresh_automation) = []
   \<and> fst (apply_to_job execute_step sample_outside sample_job fresh_automation ())
       = Inl AttributeError
   \<and> applications (application_tracker
         (fst (snd (apply_to_job execute_step sample_outside sample_job fresh_automation ()))))
       = []
   \<and> map (\<lambda>kt. (fst kt, tags (snd kt), length (steps (snd kt))))
         (templates (workflow_engine
           (fst (snd (apply_to_job execute_step sample_outside sample_job fresh_automation ())))))
       = [(''n1'', [''full-time'', ''acme corp''], 3)]"
  by code_simp

end
